theory Spec2Isabelle
  imports Main "HOL-Library.AList" "HOL-Library.Monad_Syntax"
begin

section \<open>JavaScript values\<close>

text \<open>
  The two source files are plain JavaScript. The values they handle are configuration
  data: \<open>undefined\<close>, \<open>null\<close>, booleans, numbers, strings, regular
  expression literals, arrays and plain objects. Numbers are the integer-valued ones
  (the code only tests them for truthiness and prints them). An object is the list of
  its own enumerable properties in insertion order; the first binding of a key is the
  property's value.
\<close>

datatype js_value =
    Undefined
  | Null
  | Bool bool
  | Num int
  | Str string
  | RegExp string
  | Arr "js_value list"
  | Obj "(string \<times> js_value) list"

text \<open>\<open>ToBoolean\<close>: what \<open>if (v)\<close>, \<open>v ? a : b\<close>, \<open>!v\<close> and \<open>v || w\<close> test.\<close>

fun truthy :: "js_value \<Rightarrow> bool" where
  "truthy Undefined = False"
| "truthy Null = False"
| "truthy (Bool b) = b"
| "truthy (Num n) = (n \<noteq> 0)"
| "truthy (Str s) = (s \<noteq> [])"
| "truthy (RegExp r) = True"
| "truthy (Arr xs) = True"
| "truthy (Obj ps) = True"

text \<open>\<open>a || b\<close> on values that are already computed.\<close>

definition js_or :: "js_value \<Rightarrow> js_value \<Rightarrow> js_value" where
  "js_or a b = (if truthy a then a else b)"

text \<open>Decimal digits of a natural number: array indices as property keys, and numbers in
  template literals.\<close>

fun string_of_nat :: "nat \<Rightarrow> string" where
  "string_of_nat n =
     (if n < 10 then [char_of (48 + n)]
      else string_of_nat (n div 10) @ [char_of (48 + n mod 10)])"

text \<open>\<open>Array.prototype.join\<close> on strings.\<close>

fun join :: "string \<Rightarrow> string list \<Rightarrow> string" where
  "join sep [] = []"
| "join sep [x] = x"
| "join sep (x # y # ys) = x @ sep @ join sep (y # ys)"

text \<open>
  The own enumerable properties of a value: what an object spread \<open>{...v}\<close> and
  \<open>Object.assign\<close> copy. A string or an array contributes its indexed elements, the
  other primitives (and \<open>undefined\<close>, \<open>null\<close>) nothing.
\<close>

fun own_props :: "js_value \<Rightarrow> (string \<times> js_value) list" where
  "own_props (Obj ps) = AList.clearjunk ps"
| "own_props (Str s) = zip (map string_of_nat [0..<length s]) (map (\<lambda>c. Str [c]) s)"
| "own_props (Arr xs) = zip (map string_of_nat [0..<length xs]) xs"
| "own_props v = []"

text \<open>
  Property read \<open>v.k\<close>. Reading a property of \<open>undefined\<close> or \<open>null\<close> throws a
  TypeError: the result is \<open>None\<close>. A missing property reads as \<open>undefined\<close>. Only
  data properties are modelled (own properties, and \<open>length\<close> of strings and
  arrays); the code reads no method of a built-in prototype from these values.
\<close>

fun get :: "js_value \<Rightarrow> string \<Rightarrow> js_value option" where
  "get Undefined k = None"
| "get Null k = None"
| "get (Obj ps) k = Some (case map_of ps k of None \<Rightarrow> Undefined | Some v \<Rightarrow> v)"
| "get (Str s) k =
     Some (if k = ''length'' then Num (int (length s))
           else case map_of (own_props (Str s)) k of None \<Rightarrow> Undefined | Some v \<Rightarrow> v)"
| "get (Arr xs) k =
     Some (if k = ''length'' then Num (int (length xs))
           else case map_of (own_props (Arr xs)) k of None \<Rightarrow> Undefined | Some v \<Rightarrow> v)"
| "get v k = Some Undefined"

text \<open>
  An object literal is evaluated entry by entry, left to right: \<open>k: v\<close> sets the
  property (in place when the key is already there, at the end otherwise), \<open>...v\<close>
  sets every own enumerable property of \<open>v\<close> the same way. A later entry therefore
  overrides an earlier one with the same key.
\<close>

datatype entry = Prop string js_value | Spread js_value

fun add_entry :: "entry \<Rightarrow> (string \<times> js_value) list \<Rightarrow> (string \<times> js_value) list" where
  "add_entry (Prop k v) ps = AList.update k v ps"
| "add_entry (Spread src) ps = fold (\<lambda>(k, v). AList.update k v) (own_props src) ps"

definition object_literal :: "entry list \<Rightarrow> js_value" where
  "object_literal es = Obj (fold add_entry es [])"

text \<open>\<open>ToString\<close>, as a template literal \<open>`${v}`\<close> applies it (objects without a
  \<open>toString\<close> of their own).\<close>

fun to_string :: "js_value \<Rightarrow> string" where
  "to_string Undefined = ''undefined''"
| "to_string Null = ''null''"
| "to_string (Bool b) = (if b then ''true'' else ''false'')"
| "to_string (Num n) =
     (if n < 0 then ''-'' @ string_of_nat (nat (- n)) else string_of_nat (nat n))"
| "to_string (Str s) = s"
| "to_string (RegExp r) = ''/'' @ r @ ''/''"
| "to_string (Arr xs) =
     join '','' (map (\<lambda>x. if x = Undefined \<or> x = Null then [] else to_string x) xs)"
| "to_string (Obj ps) = ''[object Object]''"

section \<open>webpack.common.js: the configuration\<close>

text \<open>
  \<open>getDevtool(env, webConfig)\<close>. Falling off the end of the function returns
  \<open>undefined\<close>. The comparison with \<open>undefined\<close> is the strict \<open>!==\<close>.
\<close>

definition getDevtool :: "js_value \<Rightarrow> js_value \<Rightarrow> js_value option" where
  "getDevtool env webConfig =
     do {
       production \<leftarrow> get env ''production'';
       if truthy production then
         do {
           devtool \<leftarrow> get webConfig ''devtool'';
           if devtool \<noteq> Undefined then Some devtool else Some (Str ''source-map'')
         }
       else
         do {
           development \<leftarrow> get env ''development'';
           if truthy development then Some (Str ''cheap-module-source-map'')
           else Some Undefined
         }
     }"

text \<open>
  The modules \<open>webpack.common.js\<close> requires from outside this file, as far as its
  function calls them. \<open>getLocations\<close> (\<open>./webpackLocations\<close>) returns the
  project's paths; \<open>overrideWithPropertyOrConfig\<close> (\<open>./utils/config\<close>),
  \<open>createEnvironmentConstants\<close>, \<open>createClientEnvironment\<close> and
  \<open>createIndexHTMLFromAppJSON\<close> are functions of their arguments. They are
  parameters of the model: nothing is assumed about what they return.
\<close>

record locations =
  root :: js_value
  absolute :: "js_value list \<Rightarrow> js_value"
  includeModule :: "js_value \<Rightarrow> js_value"
  template_folder :: js_value
  production_manifest :: js_value
  production_folder :: js_value

record required =
  getLocations :: "js_value \<Rightarrow> locations"
  overrideWithPropertyOrConfig :: "js_value \<Rightarrow> js_value \<Rightarrow> js_value"
  createEnvironmentConstants :: "js_value \<Rightarrow> js_value \<Rightarrow> js_value"
  createClientEnvironment :: "locations \<Rightarrow> js_value \<Rightarrow> js_value \<Rightarrow> js_value"
  createIndexHTMLFromAppJSON :: "js_value \<Rightarrow> js_value \<Rightarrow> locations \<Rightarrow> js_value"
  chalk_green_bold :: "string \<Rightarrow> string"
  dirname :: js_value

definition DEFAULT_SERVICE_WORKER :: js_value where
  "DEFAULT_SERVICE_WORKER = Obj []"

definition DEFAULT_REPORT_CONFIG :: js_value where
  "DEFAULT_REPORT_CONFIG =
     Obj [(''verbose'', Bool False),
          (''path'', Str ''web-report''),
          (''statsFilename'', Str ''stats.json''),
          (''reportFilename'', Str ''report.html'')]"

definition createNoJSComponent :: "js_value \<Rightarrow> js_value" where
  \<open>createNoJSComponent message =
     Str (''" <form action="" method="POST" style="background-color:#fff;position:fixed;top:0;left:0;right:0;bottom:0;z-index:9999;"><div style="font-size:18px;font-family:Helvetica,sans-serif;line-height:24px;margin:10%;width:80%;"> <p>''
          @ to_string message
          @ ''</p> <p style="margin:20px 0;"> <button type="submit" style="background-color: #4630EB; border-radius: 100px; border: none; box-shadow: none; color: #fff; cursor: pointer; font-size: 14px; font-weight: bold; line-height: 20px; padding: 6px 16px;">Ok</button> </p> </div> </form> "'')\<close>

text \<open>
  The plugin instances of the returned configuration, each with the data its
  constructor is given (the class \<open>HtmlWebpackPlugin\<close> passed to
  \<open>InterpolateHtmlPlugin\<close> is left out). \<open>CreatedIndexHTML\<close> is whatever
  \<open>createIndexHTMLFromAppJSON(env, config, locations)\<close> returned (the plugin that
  writes \<open>index.html\<close>).
\<close>

datatype plugin =
    CreatedIndexHTML js_value
  | InterpolateHtmlPlugin js_value
  | DefinePlugin js_value
  | WebpackDeepScopeAnalysisPlugin
  | GenerateSW js_value
  | WebpackPWAManifestPlugin js_value js_value
  | ModuleNotFoundPlugin js_value
  | ProgressBarPlugin js_value
  | CleanWebpackPlugin js_value js_value
  | BundleAnalyzerPlugin js_value

fun is_GenerateSW :: "plugin \<Rightarrow> bool" where
  "is_GenerateSW (GenerateSW options) = True"
| "is_GenerateSW p = False"

fun is_report_plugin :: "plugin \<Rightarrow> bool" where
  "is_report_plugin (CleanWebpackPlugin paths options) = True"
| "is_report_plugin (BundleAnalyzerPlugin options) = True"
| "is_report_plugin p = False"

text \<open>The backslash of the regular expression sources.\<close>

definition backslash :: char where
  "backslash = CHR 0x5C"

text \<open>
  \<open>middlewarePlugins\<close>: the scope-analysis plugin, then the service worker plugin
  when \<open>serviceWorker\<close> is truthy, then the manifest plugin.
\<close>

definition middlewarePlugins ::
  "locations \<Rightarrow> js_value \<Rightarrow> js_value \<Rightarrow> js_value \<Rightarrow> js_value \<Rightarrow> js_value \<Rightarrow> plugin list"
where
  "middlewarePlugins locs env config publicPath serviceWorker development =
     [WebpackDeepScopeAnalysisPlugin]
     @ (if truthy serviceWorker then
          [GenerateSW (object_literal
             [Prop ''exclude''
                (Arr [RegExp (backslash # ''.LICENSE$''),
                      RegExp (backslash # ''.map$''),
                      RegExp (''asset-manifest'' @ backslash # ''.json$'')]),
              Prop ''navigateFallback'' (Str (to_string publicPath @ ''index.html'')),
              Prop ''clientsClaim'' (Bool True),
              Prop ''importWorkboxFrom'' (Str ''cdn''),
              Prop ''navigateFallbackBlacklist''
                (Arr [RegExp ''^/_'', RegExp (''/[^/]+'' @ backslash # ''.[^/]+$'')]),
              Spread serviceWorker])]
        else [])
     @ [WebpackPWAManifestPlugin config
          (object_literal
             [Spread env,
              Prop ''noResources'' development,
              Prop ''filename'' (production_manifest locs)])]"

text \<open>
  \<open>reportPlugins\<close>: empty unless \<open>reportConfig\<close> is truthy. In the options of
  \<open>BundleAnalyzerPlugin\<close> the spread of \<open>reportConfig\<close> is the last entry of the
  literal, as in the source.
\<close>

definition reportPlugins :: "locations \<Rightarrow> js_value \<Rightarrow> plugin list option" where
  "reportPlugins locs reportConfig =
     (if truthy reportConfig then
        do {
          path \<leftarrow> get reportConfig ''path'';
          let reportDir = js_or path (Str ''web-report'');
          verbose \<leftarrow> get reportConfig ''verbose'';
          statsFilename \<leftarrow> get reportConfig ''statsFilename'';
          reportFilename \<leftarrow> get reportConfig ''reportFilename'';
          Some
            [CleanWebpackPlugin (Arr [absolute locs [reportDir]])
               (object_literal
                  [Prop ''root'' (root locs),
                   Prop ''dry'' (Bool False),
                   Prop ''verbose'' verbose]),
             BundleAnalyzerPlugin
               (object_literal
                  [Prop ''analyzerMode'' (Str ''static''),
                   Prop ''defaultSizes'' (Str ''gzip''),
                   Prop ''generateStatsFile'' (Bool True),
                   Prop ''openAnalyzer'' (Bool False),
                   Prop ''logLevel'' (if truthy verbose then Str ''info'' else Str ''silent''),
                   Prop ''statsFilename''
                     (absolute locs [reportDir, js_or statsFilename (Str ''stats.json'')]),
                   Prop ''reportFilename''
                     (absolute locs [reportDir, js_or reportFilename (Str ''report.html'')]),
                   Spread reportConfig])]
        }
      else Some [])"

text \<open>
  The returned configuration. \<open>module\<close> (the loader rules), \<open>resolve\<close>,
  \<open>node\<close> and \<open>performance\<close> are built without any branch; they are left out
  of the record.
\<close>

record webpack_config =
  bail :: js_value
  devtool :: js_value
  context_dir :: js_value
  output_options :: js_value
  plugins :: "plugin list"

text \<open>
  \<open>module.exports = function(env = {}, argv)\<close>. The default \<open>{}\<close> replaces an
  \<open>undefined\<close> argument only. \<open>None\<close> is the TypeError of reading a property of
  \<open>undefined\<close> or \<open>null\<close> (\<open>env\<close>, \<open>env.config\<close> or
  \<open>config.web\<close>).
\<close>

definition module_exports :: "required \<Rightarrow> js_value \<Rightarrow> js_value \<Rightarrow> webpack_config option" where
  "module_exports r env_arg argv =
     (let env = (if env_arg = Undefined then Obj [] else env_arg) in
      do {
        projectRoot \<leftarrow> get env ''projectRoot'';
        let locs = getLocations r projectRoot;
        isProduction \<leftarrow> get env ''production'';
        babelConfig \<leftarrow> get env ''babelConfig'';
        config \<leftarrow> get env ''config'';
        let publicAppManifest = createEnvironmentConstants r config (production_manifest locs);
        web \<leftarrow> get config ''web'';
        publicPath \<leftarrow> get web ''publicPath'';
        rootId \<leftarrow> get web ''rootId'';
        noJavaScriptMessage \<leftarrow> get web ''noJavaScriptMessage'';
        lang \<leftarrow> get web ''lang'';
        let noJSComponent = createNoJSComponent noJavaScriptMessage;
        production \<leftarrow> get env ''production'';
        prop \<leftarrow> (if truthy production then get web ''serviceWorker'' else Some (Bool False));
        let serviceWorker = overrideWithPropertyOrConfig r prop DEFAULT_SERVICE_WORKER;
        development \<leftarrow> get env ''development'';
        let middleware = middlewarePlugins locs env config publicPath serviceWorker development;
        report \<leftarrow> get web ''report'';
        let reportConfig = overrideWithPropertyOrConfig r report DEFAULT_REPORT_CONFIG;
        reports \<leftarrow> reportPlugins locs reportConfig;
        devtool \<leftarrow> getDevtool env web;
        name \<leftarrow> get web ''name'';
        Some \<lparr>
          bail = isProduction,
          devtool = devtool,
          context_dir = dirname r,
          output_options = object_literal
            [Prop ''path'' (production_folder locs),
             Prop ''sourceMapFilename'' (Str ''[chunkhash].map''),
             Prop ''publicPath'' publicPath],
          plugins =
            [CreatedIndexHTML (createIndexHTMLFromAppJSON r env config locs),
             InterpolateHtmlPlugin (object_literal
               [Prop ''PUBLIC_URL'' publicPath,
                Prop ''WEB_TITLE'' name,
                Prop ''NO_SCRIPT'' noJSComponent,
                Prop ''LANG_ISO_CODE'' lang,
                Prop ''ROOT_ID'' rootId]),
             DefinePlugin (createClientEnvironment r locs publicPath publicAppManifest)]
            @ middleware
            @ [ModuleNotFoundPlugin (root locs),
               ProgressBarPlugin (object_literal
                 [Prop ''format''
                    (Str (''Building Webpack bundle [:bar] '' @ chalk_green_bold r '':percent''
                          @ '' (:elapsed seconds) :msg'')),
                  Prop ''clear'' (Bool False),
                  Prop ''complete'' (Str ''=''),
                  Prop ''incomplete'' (Str '' '')])]
            @ reports
        \<rparr>
      })"

section \<open>webpack.common.js: the compiler and its event handlers\<close>

text \<open>
  What the code does to the outside world: clearing the console, the three logging
  functions of \<open>ProjectUtils\<close> (project root, tag, message), the \<open>onFinished\<close>
  callback it was given, and \<open>process.exit\<close>. A logging call is recorded with the
  message as it is when the call is made.
\<close>

datatype effect =
    Console_clear
  | ProjectUtils_logInfo js_value string js_value
  | ProjectUtils_logWarning js_value string js_value
  | ProjectUtils_logError js_value string js_value
  | Callback_onFinished
  | Process_exit int

definition CONSOLE_TAG :: string where
  "CONSOLE_TAG = ''webpack''"

definition log :: "js_value \<Rightarrow> js_value \<Rightarrow> effect list" where
  "log projectRoot message = [ProjectUtils_logInfo projectRoot CONSOLE_TAG message]"

definition logWarning :: "js_value \<Rightarrow> js_value \<Rightarrow> effect list" where
  "logWarning projectRoot message = [ProjectUtils_logWarning projectRoot CONSOLE_TAG message]"

definition logError :: "js_value \<Rightarrow> js_value \<Rightarrow> effect list" where
  "logError projectRoot message = [ProjectUtils_logError projectRoot CONSOLE_TAG message]"

text \<open>
  \<open>chalk\<close> styles a string: \<open>chalk.bold.cyan(s)\<close> is \<open>chalk [''bold'', ''cyan''] s\<close>.
  It belongs to a library and is a parameter. \<open>urls\<close> is the object with the two
  addresses the instructions show.
\<close>

type_synonym chalk = "string list \<Rightarrow> string \<Rightarrow> string"

record urls =
  lanUrlForTerminal :: js_value
  localUrlForTerminal :: js_value

definition printInstructions :: "chalk \<Rightarrow> js_value \<Rightarrow> js_value \<Rightarrow> urls \<Rightarrow> js_value \<Rightarrow> effect list" where
  "printInstructions chalk projectRoot appName us useYarn =
     log projectRoot (Str '' '')
     @ log projectRoot
         (Str (''You can now view '' @ chalk [''bold''] (to_string appName) @ '' in the browser.''))
     @ log projectRoot (Str '' '')
     @ (if truthy (lanUrlForTerminal us) then
          log projectRoot
            (Str (''  '' @ chalk [''bold''] ''Local:'' @ ''            ''
                  @ to_string (localUrlForTerminal us)))
          @ log projectRoot
              (Str (''  '' @ chalk [''bold''] ''On Your Network:'' @ ''  ''
                    @ to_string (lanUrlForTerminal us)))
          @ log projectRoot (Str '' '')
        else
          log projectRoot (Str (''  '' @ to_string (localUrlForTerminal us))))
     @ log projectRoot (Str ''Note that the development build is not optimized.'')
     @ log projectRoot
         (Str (''To create a production build, use '' @ chalk [''bold''] ''expo build:web'' @ ''.''))
     @ log projectRoot (Str '' '')"

definition printPreviewNotice :: "chalk \<Rightarrow> js_value \<Rightarrow> effect list" where
  "printPreviewNotice chalk projectRoot =
     log projectRoot (Str '' '')
     @ log projectRoot
         (Str (chalk [''underline'', ''yellow'']
            ''Web support in Expo is experimental and subject to breaking changes.''))
     @ log projectRoot
         (Str (chalk [''underline'', ''yellow''] ''Do not use this in production yet.''))"

text \<open>
  The statements a handler executes, one constructor per function the handlers call.
  \<open>devSocket.errors\<close> and \<open>devSocket.warnings\<close> are the two closures
  \<open>errors => logError(projectRoot, errors)\<close> and
  \<open>warnings => logWarning(projectRoot, warnings)\<close>: they pass the whole array on.
\<close>

datatype call =
    ClearConsole
  | Log js_value js_value
  | LogWarning js_value js_value
  | LogError js_value js_value
  | DevSocket_errors "string list"
  | DevSocket_warnings "string list"
  | PrintPreviewNotice js_value
  | PrintInstructions js_value js_value urls js_value
  | OnFinished
  | ProcessExit int

text \<open>
  \<open>stats.toJson(options)\<close> is a method of the object the bundler hands to the
  handler; \<open>formatWebpackMessages\<close> (\<open>react-dev-utils\<close>) turns its result into
  the two lists of message strings.
\<close>

datatype stats = Stats (toJson: "js_value \<Rightarrow> js_value")

record messages =
  errors :: "string list"
  warnings :: "string list"

record externals =
  chalk_of :: chalk
  formatWebpackMessages :: "js_value \<Rightarrow> messages"

text \<open>
  The argument of \<open>createWebpackCompiler\<close>, destructured in its parameter list.
  \<open>webpack(config)\<close> either returns a compiler or throws a value (\<open>Inl\<close>).
  \<open>onFinished\<close> is a callback without arguments; calling it is the effect
  \<open>Callback_onFinished\<close>.
\<close>

record ('cfg, 'c) options =
  projectRoot :: js_value
  appName :: js_value
  config :: 'cfg
  urls :: urls
  nonInteractive :: js_value
  useYarn :: js_value
  webpack :: "'cfg \<Rightarrow> js_value + 'c"

text \<open>What one statement does, given \<open>chalk\<close> and the project root the
  \<open>devSocket\<close> closures captured.\<close>

fun perform :: "externals \<Rightarrow> ('cfg, 'c) options \<Rightarrow> call \<Rightarrow> effect list" where
  "perform x p ClearConsole = [Console_clear]"
| "perform x p (Log r m) = log r m"
| "perform x p (LogWarning r m) = logWarning r m"
| "perform x p (LogError r m) = logError r m"
| "perform x p (DevSocket_errors es) = logError (projectRoot p) (Arr (map Str es))"
| "perform x p (DevSocket_warnings ws) = logWarning (projectRoot p) (Arr (map Str ws))"
| "perform x p (PrintPreviewNotice r) = printPreviewNotice (chalk_of x) r"
| "perform x p (PrintInstructions r a us y) = printInstructions (chalk_of x) r a us y"
| "perform x p OnFinished = [Callback_onFinished]"
| "perform x p (ProcessExit n) = [Process_exit n]"

definition effects :: "externals \<Rightarrow> ('cfg, 'c) options \<Rightarrow> call list \<Rightarrow> effect list" where
  "effects x p cs = concat (map (perform x p) cs)"

text \<open>
  The only variable of \<open>createWebpackCompiler\<close> that a handler assigns:
  \<open>let isFirstCompile = true\<close>.
\<close>

record state =
  isFirstCompile :: bool

text \<open>The handler tapped on \<open>compiler.hooks.invalid\<close>.\<close>

definition invalid_handler :: "externals \<Rightarrow> ('cfg, 'c) options \<Rightarrow> state \<Rightarrow> call list \<times> state" where
  "invalid_handler x p s =
     ((if \<not> truthy (nonInteractive p) then [ClearConsole] else [])
      @ [Log (projectRoot p) (Str (chalk_of x [''white''] ''\<newline>Compiling...''))],
      s)"

text \<open>
  The handler tapped on \<open>compiler.hooks.done\<close>. It is an \<open>async\<close> function
  without \<open>await\<close>: its body runs to the end when the event fires.
  \<open>formatted\<close> is its local \<open>messages\<close>: the stats as JSON, passed through
  \<open>formatWebpackMessages\<close>. \<open>messages.errors.length = 1\<close> keeps the first
  element of the array.
\<close>

definition formatted :: "externals \<Rightarrow> stats \<Rightarrow> messages" where
  "formatted x st =
     (let statsData = toJson st (object_literal
            [Prop ''all'' (Bool False), Prop ''warnings'' (Bool True), Prop ''errors'' (Bool True)])
      in formatWebpackMessages x statsData)"

definition done_handler ::
  "externals \<Rightarrow> ('cfg, 'c) options \<Rightarrow> stats \<Rightarrow> state \<Rightarrow> call list \<times> state"
where
  "done_handler x p st s =
     (let ms = formatted x st;
          isSuccessful = (length (errors ms) = 0 \<and> length (warnings ms) = 0)
      in
       ((if \<not> truthy (nonInteractive p) then [ClearConsole] else [])
        @ (if length (errors ms) > 0 then [DevSocket_errors (errors ms)]
           else if length (warnings ms) > 0 then [DevSocket_warnings (warnings ms)]
           else [])
        @ [Log (projectRoot p) (Str '' '')]
        @ (if isSuccessful then
             [Log (projectRoot p) (Str (chalk_of x [''bold'', ''cyan''] ''Compiled successfully!'')),
              PrintPreviewNotice (projectRoot p)]
           else [])
        @ (if isSuccessful \<and> (\<not> truthy (nonInteractive p) \<or> isFirstCompile s) then
             [PrintInstructions (projectRoot p) (appName p) (urls p) (useYarn p)]
           else [])
        @ [OnFinished]
        @ (if length (errors ms) \<noteq> 0 then
             [LogError (projectRoot p) (Str (chalk_of x [''red''] ''Failed to compile.\<newline>'')),
              LogError (projectRoot p)
                (Str (join ''\<newline>\<newline>''
                   (if length (errors ms) > 1 then take 1 (errors ms) else errors ms)))]
           else if length (warnings ms) \<noteq> 0 then
             [LogWarning (projectRoot p)
                (Str (chalk_of x [''yellow''] ''Compiled with warnings.\<newline>'')),
              LogWarning (projectRoot p) (Str (join ''\<newline>\<newline>'' (warnings ms))),
              LogWarning (projectRoot p)
                (Str (''\<newline>Search for the ''
                      @ chalk_of x [''underline''] (chalk_of x [''yellow''] ''keywords'')
                      @ '' to learn more about each warning.'')),
              LogWarning (projectRoot p)
                (Str (''To ignore, add '' @ chalk_of x [''cyan''] ''// eslint-disable-next-line''
                      @ '' to the line before.\<newline>''))]
           else []),
        s\<lparr>isFirstCompile := False\<rparr>))"

text \<open>The two events of the compiler, and a run of the handlers over a sequence of them:
  the statements executed for each event, in order.\<close>

datatype event = Invalid | Done stats

fun fire :: "externals \<Rightarrow> ('cfg, 'c) options \<Rightarrow> event \<Rightarrow> state \<Rightarrow> call list \<times> state" where
  "fire x p Invalid s = invalid_handler x p s"
| "fire x p (Done st) s = done_handler x p st s"

fun run :: "externals \<Rightarrow> ('cfg, 'c) options \<Rightarrow> state \<Rightarrow> event list \<Rightarrow> call list list" where
  "run x p s [] = []"
| "run x p s (e # es) = fst (fire x p e s) # run x p (snd (fire x p e s)) es"

text \<open>The state the handlers leave behind after a sequence of events.\<close>

fun after :: "externals \<Rightarrow> ('cfg, 'c) options \<Rightarrow> state \<Rightarrow> event list \<Rightarrow> state" where
  "after x p s [] = s"
| "after x p s (e # es) = after x p (snd (fire x p e s)) es"

text \<open>Recognisers: the statement that prints the browser instructions, the direct
  \<open>logError\<close> and \<open>logWarning\<close> statements of a handler (its reports), the
  exit statement, and the warning lines and the exit among the effects.\<close>

fun is_PrintInstructions :: "call \<Rightarrow> bool" where
  "is_PrintInstructions (PrintInstructions r a us y) = True"
| "is_PrintInstructions c = False"

fun is_report :: "call \<Rightarrow> bool" where
  "is_report (LogError r m) = True"
| "is_report (LogWarning r m) = True"
| "is_report c = False"

fun is_ProcessExit :: "call \<Rightarrow> bool" where
  "is_ProcessExit (ProcessExit n) = True"
| "is_ProcessExit c = False"

fun is_logWarning :: "effect \<Rightarrow> bool" where
  "is_logWarning (ProjectUtils_logWarning r t m) = True"
| "is_logWarning e = False"

fun is_exit :: "effect \<Rightarrow> bool" where
  "is_exit (Process_exit n) = True"
| "is_exit e = False"

text \<open>
  \<open>createWebpackCompiler\<close> up to the registration of the handlers: the statements
  it executes and how it ends. It returns the compiler, with \<open>isFirstCompile\<close>
  initialised; or the process exits; or the catch block itself throws the TypeError of
  reading \<open>err.message\<close> from \<open>undefined\<close> or \<open>null\<close>.
\<close>

datatype 'c outcome = Returned 'c state | Exited int | TypeError_thrown

definition createWebpackCompiler :: "('cfg, 'c) options \<Rightarrow> call list \<times> 'c outcome" where
  "createWebpackCompiler p =
     (case webpack p (config p) of
        Inr compiler \<Rightarrow> ([], Returned compiler \<lparr>isFirstCompile = True\<rparr>)
      | Inl err \<Rightarrow>
          (case get err ''message'' of
             None \<Rightarrow>
               ([LogError (projectRoot p) (Str '' ''),
                 LogError (projectRoot p) (Str ''Failed to compile''),
                 LogError (projectRoot p) (Str '' '')],
                TypeError_thrown)
           | Some message \<Rightarrow>
               ([LogError (projectRoot p) (Str '' ''),
                 LogError (projectRoot p) (Str ''Failed to compile''),
                 LogError (projectRoot p) (Str '' ''),
                 LogError (projectRoot p) (js_or message err),
                 LogError (projectRoot p) (Str '' ''),
                 ProcessExit 1],
                Exited 1)))"

section \<open>scripts/generateChangelog.js\<close>

text \<open>
  The script logs a line, spawns a child process and registers a listener for the
  child's \<open>exit\<close> event: \<open>spawn(...).on('exit', process.exit)\<close>. The listener
  is \<open>process.exit\<close> itself, which the event calls with the child's exit code and
  signal. \<open>path.join\<close>, \<open>__dirname\<close> and \<open>process.env\<close> come from the
  runtime and are parameters.
\<close>

text \<open>
  \<open>process.exit(code)\<close>: the exit status of the current process. A number is the
  status, which the operating system keeps modulo 256; \<open>undefined\<close> and \<open>null\<close>
  leave \<open>process.exitCode\<close>, which this script never sets, so the status is 0.
  Other arguments do not occur (\<open>None\<close>).
\<close>

fun process_exit :: "js_value list \<Rightarrow> int option" where
  "process_exit [] = Some 0"
| "process_exit (Num n # rest) = Some (n mod 256)"
| "process_exit (Undefined # rest) = Some 0"
| "process_exit (Null # rest) = Some 0"
| "process_exit (v # rest) = None"

text \<open>What the script does, statement by statement. A listener is a function of the
  event's arguments that ends the process with a status.\<close>

datatype script_effect =
    Console_log string
  | Spawn js_value "js_value list" js_value
  | On string "js_value list \<Rightarrow> int option"

definition Object_assign :: "js_value \<Rightarrow> js_value \<Rightarrow> js_value" where
  "Object_assign target src =
     (case target of Obj ps \<Rightarrow> Obj (add_entry (Spread src) ps) | v \<Rightarrow> v)"

definition generateChangelog ::
  "(js_value list \<Rightarrow> js_value) \<Rightarrow> js_value \<Rightarrow> js_value \<Rightarrow> script_effect list"
where
  "generateChangelog path_join dir process_env =
     (let lerna = path_join [dir, Str ''../node_modules/.bin/lerna''] in
      [Console_log ''generating changelog...'',
       Spawn lerna [Str ''version'', Str ''--conventional-commits'']
         (object_literal
            [Prop ''stdio'' (Str ''inherit''),
             Prop ''env'' (Object_assign (Obj []) process_env)]),
       On ''exit'' process_exit])"

text \<open>The child's \<open>exit\<close> event carries \<open>(code, signal)\<close>: the exit code and
  \<open>null\<close>, or \<open>null\<close> and the name of the signal that ended the child.\<close>

datatype child_exit = Exit_code int | Killed_by string

fun exit_event_args :: "child_exit \<Rightarrow> js_value list" where
  "exit_event_args (Exit_code n) = [Num n, Null]"
| "exit_event_args (Killed_by sig) = [Null, Str sig]"

text \<open>
  The listeners a run of the script registered for an event, in order; and the
  child's \<open>exit\<close> event: the first listener registered for it is called with the
  event's arguments and ends the process. Without a listener the event ends nothing
  (\<open>None\<close>).
\<close>

fun listeners :: "string \<Rightarrow> script_effect list \<Rightarrow> (js_value list \<Rightarrow> int option) list" where
  "listeners ev [] = []"
| "listeners ev (On ev' f # rest) = (if ev' = ev then f # listeners ev rest else listeners ev rest)"
| "listeners ev (eff # rest) = listeners ev rest"

definition exit_event :: "script_effect list \<Rightarrow> child_exit \<Rightarrow> int option" where
  "exit_event script e =
     (case listeners ''exit'' script of
        [] \<Rightarrow> None
      | f # fs \<Rightarrow> f (exit_event_args e))"

section \<open>Sample inputs\<close>

text \<open>
  Concrete inputs at which the theorems below are instantiated. The stand-ins for
  the required modules are the simplest functions of the right shape:
  \<open>sample_override\<close> returns the default for \<open>undefined\<close> and \<open>true\<close> and its
  first argument otherwise, \<open>sample_format\<close> reads the two arrays of the stats, and
  \<open>plain_chalk\<close> leaves the text unstyled.
\<close>

definition sample_absolute :: "js_value list \<Rightarrow> js_value" where
  "sample_absolute parts = Str (join ''/'' (''/app'' # map to_string parts))"

definition sample_includeModule :: "js_value \<Rightarrow> js_value" where
  "sample_includeModule m = Str (''/app/node_modules/'' @ to_string m)"

definition sample_locations :: locations where
  "sample_locations =
     \<lparr>root = Str ''/app'',
      absolute = sample_absolute,
      includeModule = sample_includeModule,
      template_folder = Str ''/app/web'',
      production_manifest = Str ''/app/web-build/manifest.json'',
      production_folder = Str ''/app/web-build''\<rparr>"

definition sample_getLocations :: "js_value \<Rightarrow> locations" where
  "sample_getLocations dir = sample_locations"

definition sample_override :: "js_value \<Rightarrow> js_value \<Rightarrow> js_value" where
  "sample_override prop cfg = (if prop = Undefined \<or> prop = Bool True then cfg else prop)"

definition sample_constant :: "js_value \<Rightarrow> js_value \<Rightarrow> js_value" where
  "sample_constant a b = Obj []"

definition sample_client :: "locations \<Rightarrow> js_value \<Rightarrow> js_value \<Rightarrow> js_value" where
  "sample_client locs a b = Obj []"

definition sample_index :: "js_value \<Rightarrow> js_value \<Rightarrow> locations \<Rightarrow> js_value" where
  "sample_index a b locs = Obj []"

definition plain :: "string \<Rightarrow> string" where
  "plain s = s"

definition sample_required :: required where
  "sample_required =
     \<lparr>getLocations = sample_getLocations,
      overrideWithPropertyOrConfig = sample_override,
      createEnvironmentConstants = sample_constant,
      createClientEnvironment = sample_client,
      createIndexHTMLFromAppJSON = sample_index,
      chalk_green_bold = plain,
      dirname = Str ''/app/node_modules/@expo/webpack-config/webpack''\<rparr>"

definition sample_env :: "js_value \<Rightarrow> js_value \<Rightarrow> js_value \<Rightarrow> js_value" where
  "sample_env production serviceWorker report =
     Obj [(''projectRoot'', Str ''/app''),
          (''production'', production),
          (''config'',
           Obj [(''web'',
                 Obj [(''publicPath'', Str ''/''),
                      (''serviceWorker'', serviceWorker),
                      (''report'', report)])])]"

definition plain_chalk :: chalk where
  "plain_chalk styles s = s"

definition strings_of :: "js_value option \<Rightarrow> string list" where
  "strings_of v = (case v of Some (Arr xs) \<Rightarrow> map to_string xs | _ \<Rightarrow> [])"

definition sample_format :: "js_value \<Rightarrow> messages" where
  "sample_format json =
     \<lparr>errors = strings_of (get json ''errors''), warnings = strings_of (get json ''warnings'')\<rparr>"

definition sample_externals :: externals where
  "sample_externals = \<lparr>chalk_of = plain_chalk, formatWebpackMessages = sample_format\<rparr>"

definition sample_toJson :: "string list \<Rightarrow> string list \<Rightarrow> js_value \<Rightarrow> js_value" where
  "sample_toJson es ws opts = Obj [(''errors'', Arr (map Str es)), (''warnings'', Arr (map Str ws))]"

definition sample_stats :: "string list \<Rightarrow> string list \<Rightarrow> stats" where
  "sample_stats es ws = Stats (sample_toJson es ws)"

definition sample_webpack :: "js_value \<Rightarrow> js_value \<Rightarrow> js_value + nat" where
  "sample_webpack thrown cfg = (if cfg = Undefined then Inl thrown else Inr 0)"

definition sample_options :: "js_value \<Rightarrow> js_value \<Rightarrow> (js_value, nat) options" where
  "sample_options cfg non_interactive =
     \<lparr>projectRoot = Str ''/app'',
      appName = Str ''app'',
      config = cfg,
      urls = \<lparr>lanUrlForTerminal = Undefined, localUrlForTerminal = Str ''http://localhost:19006''\<rparr>,
      nonInteractive = non_interactive,
      useYarn = Bool False,
      webpack = sample_webpack (Obj [(''message'', Str ''Invalid configuration object.'')])\<rparr>"

definition sample_path_join :: "js_value list \<Rightarrow> js_value" where
  "sample_path_join parts = Str (join ''/'' (map to_string parts))"

section \<open>Properties\<close>

subsection \<open>Property reads and object literals\<close>

lemma get_Some_iff: "(\<exists>x. get v k = Some x) \<longleftrightarrow> v \<noteq> Undefined \<and> v \<noteq> Null"
  by (cases v) auto

lemma get_total: "get v k = Some x \<Longrightarrow> \<exists>y. get v k' = Some y"
  by (cases v) auto

lemma truthy_get: "truthy v \<Longrightarrow> \<exists>x. get v k = Some x"
  by (cases v) auto

lemma map_of_fold_update:
  "distinct (map fst xs) \<Longrightarrow>
   map_of (fold (\<lambda>(k, v). AList.update k v) xs ps) = map_of ps ++ map_of xs"
proof (induction xs arbitrary: ps)
  case Nil
  then show ?case by simp
next
  case (Cons x xs)
  obtain k v where x: "x = (k, v)" by (cases x)
  from Cons.prems x have notin: "k \<notin> dom (map_of xs)" and d: "distinct (map fst xs)"
    by (auto simp: dom_map_of_conv_image_fst)
  have "map_of (fold (\<lambda>(k, v). AList.update k v) (x # xs) ps)
        = map_of (AList.update k v ps) ++ map_of xs"
    using Cons.IH [OF d] x by simp
  also have "\<dots> = (map_of ps)(k \<mapsto> v) ++ map_of xs"
    by (simp add: update_conv')
  also have "\<dots> = map_of ps ++ map_of (x # xs)"
    using notin x by (auto simp: map_add_def fun_eq_iff split: option.splits)
  finally show ?case .
qed

lemma get_object_literal_snoc_Spread:
  "get (object_literal (es @ [Spread (Obj ps)])) k =
     (case map_of ps k of Some v \<Rightarrow> Some v | None \<Rightarrow> get (object_literal es) k)"
  by (simp add: object_literal_def map_of_fold_update map_of_clearjunk map_add_def
           split: option.splits)

subsection \<open>The devtool\<close>

text \<open>
  C2. For every \<open>env\<close> and web config whose properties can be read (neither is
  \<open>undefined\<close> or \<open>null\<close>): \<open>getDevtool\<close> returns \<open>webConfig.devtool\<close> when
  \<open>env.production\<close> is truthy and \<open>webConfig.devtool\<close> is not \<open>undefined\<close>;
  \<open>'source-map'\<close> when \<open>env.production\<close> is truthy and \<open>webConfig.devtool\<close> is
  \<open>undefined\<close>; \<open>'cheap-module-source-map'\<close> when \<open>env.production\<close> is falsy and
  \<open>env.development\<close> is truthy; and \<open>undefined\<close> when both flags are falsy.
\<close>

theorem C2_getDevtool:
  assumes "get env ''production'' = Some production"
      and "get env ''development'' = Some development"
      and "get webConfig ''devtool'' = Some dt"
  shows "(truthy production \<and> dt \<noteq> Undefined \<longrightarrow> getDevtool env webConfig = Some dt)
       \<and> (truthy production \<and> dt = Undefined \<longrightarrow>
            getDevtool env webConfig = Some (Str ''source-map''))
       \<and> (\<not> truthy production \<and> truthy development \<longrightarrow>
            getDevtool env webConfig = Some (Str ''cheap-module-source-map''))
       \<and> (\<not> truthy production \<and> \<not> truthy development \<longrightarrow>
            getDevtool env webConfig = Some Undefined)"
  using assms by (simp add: getDevtool_def)

theorem C2_getDevtool_witness:
  "getDevtool (Obj [(''production'', Bool True)]) (Obj [(''devtool'', Bool False)]) = Some (Bool False)
   \<and> getDevtool (Obj [(''production'', Num 1)]) (Obj []) = Some (Str ''source-map'')
   \<and> getDevtool (Obj [(''development'', Bool True)]) (Obj [(''devtool'', Str ''eval'')])
       = Some (Str ''cheap-module-source-map'')
   \<and> getDevtool (Obj []) (Obj [(''devtool'', Str ''eval'')]) = Some Undefined"
  using
    C2_getDevtool [of "Obj [(''production'', Bool True)]" "Bool True" Undefined
                      "Obj [(''devtool'', Bool False)]" "Bool False"]
    C2_getDevtool [of "Obj [(''production'', Num 1)]" "Num 1" Undefined "Obj []" Undefined]
    C2_getDevtool [of "Obj [(''development'', Bool True)]" Undefined "Bool True"
                      "Obj [(''devtool'', Str ''eval'')]" "Str ''eval''"]
    C2_getDevtool [of "Obj []" Undefined Undefined "Obj [(''devtool'', Str ''eval'')]" "Str ''eval''"]
  by simp

subsection \<open>The plugin list\<close>

lemma list_ex_middlewarePlugins:
  "list_ex is_GenerateSW (middlewarePlugins locs e c pp sw dv) \<longleftrightarrow> truthy sw"
  by (simp add: middlewarePlugins_def)

lemma reportPlugins_Some: "\<exists>ps. reportPlugins locs rc = Some ps"
proof (cases "truthy rc")
  case True
  then obtain a b c d where "get rc ''path'' = Some a" "get rc ''verbose'' = Some b"
    "get rc ''statsFilename'' = Some c" "get rc ''reportFilename'' = Some d"
    using truthy_get by metis
  with True show ?thesis by (simp add: reportPlugins_def Let_def)
next
  case False
  then show ?thesis by (simp add: reportPlugins_def)
qed

lemma reportPlugins_no_GenerateSW:
  "reportPlugins locs rc = Some ps \<Longrightarrow> \<not> list_ex is_GenerateSW ps"
  by (auto simp: reportPlugins_def Let_def split: if_splits bind_splits)

lemma getDevtool_Some:
  "get e ''production'' = Some a \<Longrightarrow> get w ''devtool'' = Some b \<Longrightarrow> \<exists>d. getDevtool e w = Some d"
  using get_total [of e "''production''" a "''development''"]
  by (auto simp: getDevtool_def)

lemma module_exports_Some:
  assumes "get env ''projectRoot'' = Some pr"
      and "get env ''production'' = Some pd"
      and "get env ''babelConfig'' = Some bc"
      and "get env ''config'' = Some cf"
      and "get env ''development'' = Some dv"
      and "get cf ''web'' = Some web"
      and "get web ''publicPath'' = Some pp"
      and "get web ''rootId'' = Some ri"
      and "get web ''noJavaScriptMessage'' = Some nj"
      and "get web ''lang'' = Some la"
      and "get web ''serviceWorker'' = Some sw"
      and "get web ''report'' = Some rp"
      and "get web ''name'' = Some nm"
      and "reportPlugins (getLocations r pr) (overrideWithPropertyOrConfig r rp DEFAULT_REPORT_CONFIG)
             = Some reports"
      and "getDevtool env web = Some d"
  shows "module_exports r env argv = Some
           \<lparr>bail = pd,
            devtool = d,
            context_dir = dirname r,
            output_options = object_literal
              [Prop ''path'' (production_folder (getLocations r pr)),
               Prop ''sourceMapFilename'' (Str ''[chunkhash].map''),
               Prop ''publicPath'' pp],
            plugins =
              [CreatedIndexHTML (createIndexHTMLFromAppJSON r env cf (getLocations r pr)),
               InterpolateHtmlPlugin (object_literal
                 [Prop ''PUBLIC_URL'' pp,
                  Prop ''WEB_TITLE'' nm,
                  Prop ''NO_SCRIPT'' (createNoJSComponent nj),
                  Prop ''LANG_ISO_CODE'' la,
                  Prop ''ROOT_ID'' ri]),
               DefinePlugin (createClientEnvironment r (getLocations r pr) pp
                 (createEnvironmentConstants r cf (production_manifest (getLocations r pr))))]
              @ middlewarePlugins (getLocations r pr) env cf pp
                  (overrideWithPropertyOrConfig r (if truthy pd then sw else Bool False)
                     DEFAULT_SERVICE_WORKER) dv
              @ [ModuleNotFoundPlugin (root (getLocations r pr)),
                 ProgressBarPlugin (object_literal
                   [Prop ''format''
                      (Str (''Building Webpack bundle [:bar] '' @ chalk_green_bold r '':percent''
                            @ '' (:elapsed seconds) :msg'')),
                    Prop ''clear'' (Bool False),
                    Prop ''complete'' (Str ''=''),
                    Prop ''incomplete'' (Str '' '')])]
              @ reports\<rparr>"
proof -
  from assms(1) have "env \<noteq> Undefined" by (cases env) auto
  then show ?thesis
    using assms by (simp add: module_exports_def Let_def)
qed

lemma filter_report_middlewarePlugins:
  "filter is_report_plugin (middlewarePlugins locs e c pp sw dv) = []"
  by (simp add: middlewarePlugins_def)

lemma get_object_literal_Spread_last:
  "map_of ps k = Some v \<Longrightarrow> get (object_literal (es @ [Spread (Obj ps)])) k = Some v"
  by (simp add: get_object_literal_snoc_Spread)

lemma reportPlugins_truthy:
  assumes "truthy rc"
      and "get rc ''path'' = Some path"
  shows "\<exists>clean_opts opts.
           reportPlugins locs rc =
             Some [CleanWebpackPlugin (Arr [absolute locs [js_or path (Str ''web-report'')]]) clean_opts,
                   BundleAnalyzerPlugin opts]"
proof -
  obtain b c d where "get rc ''verbose'' = Some b"
    "get rc ''statsFilename'' = Some c" "get rc ''reportFilename'' = Some d"
    using truthy_get [OF assms(1)] by metis
  with assms show ?thesis by (simp add: reportPlugins_def Let_def)
qed

lemma reportPlugins_spread:
  assumes "get (Obj ps) ''path'' = Some path"
      and "map_of ps k = Some v"
  shows "\<exists>clean_opts opts.
           reportPlugins locs (Obj ps) =
             Some [CleanWebpackPlugin (Arr [absolute locs [js_or path (Str ''web-report'')]]) clean_opts,
                   BundleAnalyzerPlugin opts]
         \<and> get opts k = Some v"
proof -
  obtain b c d where G: "get (Obj ps) ''verbose'' = Some b"
    "get (Obj ps) ''statsFilename'' = Some c" "get (Obj ps) ''reportFilename'' = Some d"
    by simp
  define es where "es =
    [Prop ''analyzerMode'' (Str ''static''),
     Prop ''defaultSizes'' (Str ''gzip''),
     Prop ''generateStatsFile'' (Bool True),
     Prop ''openAnalyzer'' (Bool False),
     Prop ''logLevel'' (if truthy b then Str ''info'' else Str ''silent''),
     Prop ''statsFilename''
       (absolute locs [js_or path (Str ''web-report''), js_or c (Str ''stats.json'')]),
     Prop ''reportFilename''
       (absolute locs [js_or path (Str ''web-report''), js_or d (Str ''report.html'')])]"
  have "reportPlugins locs (Obj ps) =
          Some [CleanWebpackPlugin (Arr [absolute locs [js_or path (Str ''web-report'')]])
                  (object_literal
                    [Prop ''root'' (root locs), Prop ''dry'' (Bool False), Prop ''verbose'' b]),
                BundleAnalyzerPlugin (object_literal (es @ [Spread (Obj ps)]))]"
    using assms(1) G by (simp add: reportPlugins_def Let_def es_def del: get.simps)
  moreover have "get (object_literal (es @ [Spread (Obj ps)])) k = Some v"
    using assms(2) by (rule get_object_literal_Spread_last)
  ultimately show ?thesis by blast
qed

text \<open>
  C3. Whenever \<open>env\<close>, \<open>env.config\<close> and \<open>config.web\<close> can be read,
  \<open>module.exports\<close> returns a configuration, and the service worker plugin
  (\<open>WorkboxPlugin.GenerateSW\<close>) is in its plugin list if and only if
  \<open>env.production\<close> is truthy and
  \<open>overrideWithPropertyOrConfig(config.web.serviceWorker, DEFAULT_SERVICE_WORKER)\<close>
  is truthy; in particular it is never included when \<open>env.production\<close> is falsy,
  whatever \<open>config.web.serviceWorker\<close> is. The helper
  \<open>overrideWithPropertyOrConfig\<close> is a parameter. Without any assumption on it, the
  plugin is included exactly when the helper's result on
  \<open>env.production ? config.web.serviceWorker : false\<close> is truthy; the claim's form
  follows as soon as the helper answers \<open>false\<close> with a falsy value, which is what
  the source relies on to prevent the service worker in development mode.
\<close>

theorem C3_service_worker_plugin:
  assumes "get env ''production'' = Some production"
      and "get env ''config'' = Some cf"
      and "get cf ''web'' = Some web"
      and "get web ''serviceWorker'' = Some sw"
  shows "\<exists>cfg. module_exports r env argv = Some cfg
           \<and> (list_ex is_GenerateSW (plugins cfg) \<longleftrightarrow>
                truthy (overrideWithPropertyOrConfig r (if truthy production then sw else Bool False)
                          DEFAULT_SERVICE_WORKER))
           \<and> (\<not> truthy (overrideWithPropertyOrConfig r (Bool False) DEFAULT_SERVICE_WORKER) \<longrightarrow>
                (list_ex is_GenerateSW (plugins cfg) \<longleftrightarrow>
                   truthy production
                   \<and> truthy (overrideWithPropertyOrConfig r sw DEFAULT_SERVICE_WORKER))
                \<and> (\<not> truthy production \<longrightarrow> \<not> list_ex is_GenerateSW (plugins cfg)))"
proof -
  obtain pr bc dv where E: "get env ''projectRoot'' = Some pr"
    "get env ''babelConfig'' = Some bc" "get env ''development'' = Some dv"
    using get_total [OF assms(1)] by metis
  obtain pp ri nj la rp nm dt where W: "get web ''publicPath'' = Some pp"
    "get web ''rootId'' = Some ri" "get web ''noJavaScriptMessage'' = Some nj"
    "get web ''lang'' = Some la" "get web ''report'' = Some rp" "get web ''name'' = Some nm"
    "get web ''devtool'' = Some dt"
    using get_total [OF assms(4)] by metis
  obtain reports where R:
    "reportPlugins (getLocations r pr) (overrideWithPropertyOrConfig r rp DEFAULT_REPORT_CONFIG)
       = Some reports"
    using reportPlugins_Some by blast
  obtain d where D: "getDevtool env web = Some d"
    using getDevtool_Some [OF assms(1) W(7)] by blast
  note M = module_exports_Some [OF E(1) assms(1) E(2) assms(2) E(3) assms(3) W(1-4) assms(4) W(5,6) R D,
      of argv]
  have no: "\<not> list_ex is_GenerateSW reports"
    using reportPlugins_no_GenerateSW [OF R] .
  show ?thesis
    using no by (simp add: M list_ex_middlewarePlugins)
qed

theorem C3_service_worker_plugin_witness:
  "(\<exists>cfg. module_exports sample_required (sample_env (Bool True) (Bool True) (Bool False)) Undefined
            = Some cfg
          \<and> list_ex is_GenerateSW (plugins cfg))
   \<and> (\<exists>cfg. module_exports sample_required (sample_env (Bool False) (Bool True) (Bool False))
               Undefined = Some cfg
          \<and> \<not> list_ex is_GenerateSW (plugins cfg))"
  using
    C3_service_worker_plugin [of "sample_env (Bool True) (Bool True) (Bool False)" "Bool True"
      "Obj [(''web'', Obj [(''publicPath'', Str ''/''), (''serviceWorker'', Bool True),
                           (''report'', Bool False)])]"
      "Obj [(''publicPath'', Str ''/''), (''serviceWorker'', Bool True), (''report'', Bool False)]"
      "Bool True" sample_required Undefined]
    C3_service_worker_plugin [of "sample_env (Bool False) (Bool True) (Bool False)" "Bool False"
      "Obj [(''web'', Obj [(''publicPath'', Str ''/''), (''serviceWorker'', Bool True),
                           (''report'', Bool False)])]"
      "Obj [(''publicPath'', Str ''/''), (''serviceWorker'', Bool True), (''report'', Bool False)]"
      "Bool True" sample_required Undefined]
  by (simp add: sample_env_def sample_required_def sample_override_def DEFAULT_SERVICE_WORKER_def)

text \<open>The report plugins are in the list exactly when the report configuration is
  truthy.\<close>

lemma report_plugins_included_iff:
  assumes "get env ''config'' = Some cf"
      and "get cf ''web'' = Some web"
      and "get web ''report'' = Some rp"
  shows "\<exists>cfg. module_exports r env argv = Some cfg
           \<and> (list_ex is_report_plugin (plugins cfg) \<longleftrightarrow>
                truthy (overrideWithPropertyOrConfig r rp DEFAULT_REPORT_CONFIG))"
proof -
  obtain pr pd bc dv where E: "get env ''projectRoot'' = Some pr" "get env ''production'' = Some pd"
    "get env ''babelConfig'' = Some bc" "get env ''development'' = Some dv"
    using get_total [OF assms(1)] by metis
  obtain pp ri nj la sw nm dt where W: "get web ''publicPath'' = Some pp"
    "get web ''rootId'' = Some ri" "get web ''noJavaScriptMessage'' = Some nj"
    "get web ''lang'' = Some la" "get web ''serviceWorker'' = Some sw" "get web ''name'' = Some nm"
    "get web ''devtool'' = Some dt"
    using get_total [OF assms(3)] by metis
  obtain d where D: "getDevtool env web = Some d"
    using getDevtool_Some [OF E(2) W(7)] by blast
  obtain reports where R:
    "reportPlugins (getLocations r pr) (overrideWithPropertyOrConfig r rp DEFAULT_REPORT_CONFIG)
       = Some reports"
    using reportPlugins_Some by blast
  have "list_ex is_report_plugin reports \<longleftrightarrow>
          truthy (overrideWithPropertyOrConfig r rp DEFAULT_REPORT_CONFIG)"
  proof (cases "truthy (overrideWithPropertyOrConfig r rp DEFAULT_REPORT_CONFIG)")
    case True
    obtain path where "get (overrideWithPropertyOrConfig r rp DEFAULT_REPORT_CONFIG) ''path'' = Some path"
      using truthy_get [OF True] by blast
    from reportPlugins_truthy [OF True this, of "getLocations r pr"] R True
    show ?thesis by auto
  next
    case False
    with R show ?thesis by (simp add: reportPlugins_def)
  qed
  moreover have "\<not> list_ex is_report_plugin (middlewarePlugins locs e c q w v)" for locs e c q w v
    by (simp add: middlewarePlugins_def)
  moreover note M = module_exports_Some [OF E(1) E(2) E(3) assms(1) E(4) assms(2) W(1-5) assms(3) W(6) R D,
      of argv]
  ultimately show ?thesis by simp
qed

text \<open>
  C4, at the inputs where it fails. When
  \<open>overrideWithPropertyOrConfig(config.web.report, DEFAULT_REPORT_CONFIG)\<close> is an
  object with properties \<open>statsFilename\<close> and \<open>reportFilename\<close> of its own (as
  \<open>DEFAULT_REPORT_CONFIG\<close> itself is), the two report plugins are in the list, in
  order, and the \<open>CleanWebpackPlugin\<close> targets the absolute report directory; but the
  \<open>statsFilename\<close> and \<open>reportFilename\<close> options of the
  \<open>BundleAnalyzerPlugin\<close> are the raw values of the report configuration, not the
  paths resolved inside the report directory: the spread \<open>...reportConfig\<close> comes
  after the two resolved entries of the literal and overrides them.
\<close>

theorem C4_report_filenames_not_resolved:
  assumes "get env ''config'' = Some cf"
      and "get cf ''web'' = Some web"
      and "get web ''report'' = Some rp"
      and "get env ''projectRoot'' = Some pr"
      and "overrideWithPropertyOrConfig r rp DEFAULT_REPORT_CONFIG = Obj ps"
      and "get (Obj ps) ''path'' = Some path"
      and "map_of ps ''statsFilename'' = Some s"
      and "map_of ps ''reportFilename'' = Some f"
  shows "\<exists>cfg clean_opts opts.
           module_exports r env argv = Some cfg
         \<and> filter is_report_plugin (plugins cfg) =
             [CleanWebpackPlugin
                (Arr [absolute (getLocations r pr) [js_or path (Str ''web-report'')]]) clean_opts,
              BundleAnalyzerPlugin opts]
         \<and> get opts ''statsFilename'' = Some s
         \<and> get opts ''reportFilename'' = Some f"
proof -
  obtain pd bc dv where E: "get env ''production'' = Some pd"
    "get env ''babelConfig'' = Some bc" "get env ''development'' = Some dv"
    using get_total [OF assms(1)] by metis
  obtain pp ri nj la sw nm dt where W: "get web ''publicPath'' = Some pp"
    "get web ''rootId'' = Some ri" "get web ''noJavaScriptMessage'' = Some nj"
    "get web ''lang'' = Some la" "get web ''serviceWorker'' = Some sw" "get web ''name'' = Some nm"
    "get web ''devtool'' = Some dt"
    using get_total [OF assms(3)] by metis
  obtain d where D: "getDevtool env web = Some d"
    using getDevtool_Some [OF E(1) W(7)] by blast
  obtain clean_opts opts where R:
    "reportPlugins (getLocations r pr) (Obj ps) =
       Some [CleanWebpackPlugin
               (Arr [absolute (getLocations r pr) [js_or path (Str ''web-report'')]]) clean_opts,
             BundleAnalyzerPlugin opts]"
    and S: "get opts ''statsFilename'' = Some s"
    using reportPlugins_spread [OF assms(6) assms(7)] by blast
  obtain clean_opts' opts' where R':
    "reportPlugins (getLocations r pr) (Obj ps) =
       Some [CleanWebpackPlugin
               (Arr [absolute (getLocations r pr) [js_or path (Str ''web-report'')]]) clean_opts',
             BundleAnalyzerPlugin opts']"
    and F': "get opts' ''reportFilename'' = Some f"
    using reportPlugins_spread [OF assms(6) assms(8)] by blast
  from R R' have "opts' = opts" by simp
  with F' have F: "get opts ''reportFilename'' = Some f" by simp
  from R assms(5) have R0:
    "reportPlugins (getLocations r pr) (overrideWithPropertyOrConfig r rp DEFAULT_REPORT_CONFIG) =
       Some [CleanWebpackPlugin
               (Arr [absolute (getLocations r pr) [js_or path (Str ''web-report'')]]) clean_opts,
             BundleAnalyzerPlugin opts]"
    by simp
  note M = module_exports_Some [OF assms(4) E(1) E(2) assms(1) E(3) assms(2) W(1-5) assms(3) W(6) R0 D,
      of argv]
  show ?thesis
    using S F by (simp add: M filter_report_middlewarePlugins)
qed

theorem C4_report_filenames_not_resolved_witness:
  "\<exists>cfg clean_opts opts.
     module_exports sample_required (sample_env (Bool False) (Bool False) Undefined) Undefined
       = Some cfg
   \<and> filter is_report_plugin (plugins cfg) =
       [CleanWebpackPlugin (Arr [Str ''/app/web-report'']) clean_opts, BundleAnalyzerPlugin opts]
   \<and> get opts ''statsFilename'' = Some (Str ''stats.json'')
   \<and> get opts ''reportFilename'' = Some (Str ''report.html'')
   \<and> sample_absolute [Str ''web-report'', Str ''stats.json''] = Str ''/app/web-report/stats.json''
   \<and> sample_absolute [Str ''web-report'', Str ''report.html''] = Str ''/app/web-report/report.html''"
  using
    C4_report_filenames_not_resolved [of "sample_env (Bool False) (Bool False) Undefined"
      "Obj [(''web'', Obj [(''publicPath'', Str ''/''), (''serviceWorker'', Bool False),
                           (''report'', Undefined)])]"
      "Obj [(''publicPath'', Str ''/''), (''serviceWorker'', Bool False), (''report'', Undefined)]"
      Undefined "Str ''/app''" sample_required
      "[(''verbose'', Bool False), (''path'', Str ''web-report''),
        (''statsFilename'', Str ''stats.json''), (''reportFilename'', Str ''report.html'')]"
      "Str ''web-report''" "Str ''stats.json''" "Str ''report.html''" Undefined]
  by (simp add: sample_env_def sample_required_def sample_override_def DEFAULT_REPORT_CONFIG_def
        sample_getLocations_def sample_locations_def sample_absolute_def js_or_def)

subsection \<open>The event handlers\<close>

lemma done_handler_state: "snd (done_handler x p st s) = s\<lparr>isFirstCompile := False\<rparr>"
  by (simp add: done_handler_def Let_def)

lemma invalid_handler_state: "snd (invalid_handler x p s) = s"
  by (simp add: invalid_handler_def)

lemma no_exit_invalid: "\<not> list_ex is_ProcessExit (fst (invalid_handler x p s))"
  by (simp add: invalid_handler_def)

lemma no_exit_done: "\<not> list_ex is_ProcessExit (fst (done_handler x p st s))"
  by (simp add: done_handler_def Let_def)

lemma no_exit_fire: "\<not> list_ex is_ProcessExit (fst (fire x p e s))"
  by (cases e) (simp_all add: no_exit_invalid no_exit_done)

lemma effects_append: "effects x p (a @ b) = effects x p a @ effects x p b"
  by (simp add: effects_def)

lemma effects_Nil: "effects x p [] = []"
  by (simp add: effects_def)

lemma effects_Cons: "effects x p (c # cs) = perform x p c @ effects x p cs"
  by (simp add: effects_def)

lemma printInstructions_no_exit: "\<not> list_ex is_exit (printInstructions ch r a us y)"
  by (simp add: printInstructions_def log_def)

lemma printPreviewNotice_no_exit: "\<not> list_ex is_exit (printPreviewNotice ch r)"
  by (simp add: printPreviewNotice_def log_def)

lemma perform_no_exit: "\<not> is_ProcessExit c \<Longrightarrow> \<not> list_ex is_exit (perform x p c)"
  by (cases c)
     (simp_all add: log_def logWarning_def logError_def printInstructions_no_exit
        printPreviewNotice_no_exit)

lemma effects_no_exit: "\<not> list_ex is_ProcessExit cs \<Longrightarrow> \<not> list_ex is_exit (effects x p cs)"
  by (induction cs) (simp_all add: effects_Nil effects_Cons perform_no_exit)

lemma join_first_error:
  assumes "es \<noteq> []"
  shows "join sep (if length es > 1 then take 1 es else es) = hd es"
proof (cases es)
  case Nil
  with assms show ?thesis by simp
next
  case (Cons a rest)
  then show ?thesis by (cases rest) simp_all
qed

text \<open>What a \<open>done\<close> event prints when there are errors, and when there are warnings
  but no errors: the whole run of the handler, effect by effect.\<close>

lemma done_effects_errors:
  assumes "errors (formatted x st) \<noteq> []"
  shows "effects x p (fst (done_handler x p st s)) =
           (if \<not> truthy (nonInteractive p) then [Console_clear] else [])
           @ [ProjectUtils_logError (projectRoot p) CONSOLE_TAG
                (Arr (map Str (errors (formatted x st)))),
              ProjectUtils_logInfo (projectRoot p) CONSOLE_TAG (Str '' ''),
              Callback_onFinished,
              ProjectUtils_logError (projectRoot p) CONSOLE_TAG
                (Str (chalk_of x [''red''] ''Failed to compile.\<newline>'')),
              ProjectUtils_logError (projectRoot p) CONSOLE_TAG
                (Str (hd (errors (formatted x st))))]"
  using assms join_first_error [OF assms, of "''\<newline>\<newline>''"]
  by (simp add: done_handler_def Let_def effects_def logError_def log_def)

lemma done_effects_warnings:
  assumes "errors (formatted x st) = []" and "warnings (formatted x st) \<noteq> []"
  shows "effects x p (fst (done_handler x p st s)) =
           (if \<not> truthy (nonInteractive p) then [Console_clear] else [])
           @ [ProjectUtils_logWarning (projectRoot p) CONSOLE_TAG
                (Arr (map Str (warnings (formatted x st)))),
              ProjectUtils_logInfo (projectRoot p) CONSOLE_TAG (Str '' ''),
              Callback_onFinished,
              ProjectUtils_logWarning (projectRoot p) CONSOLE_TAG
                (Str (chalk_of x [''yellow''] ''Compiled with warnings.\<newline>'')),
              ProjectUtils_logWarning (projectRoot p) CONSOLE_TAG
                (Str (join ''\<newline>\<newline>'' (warnings (formatted x st)))),
              ProjectUtils_logWarning (projectRoot p) CONSOLE_TAG
                (Str (''\<newline>Search for the ''
                      @ chalk_of x [''underline''] (chalk_of x [''yellow''] ''keywords'')
                      @ '' to learn more about each warning.'')),
              ProjectUtils_logWarning (projectRoot p) CONSOLE_TAG
                (Str (''To ignore, add '' @ chalk_of x [''cyan''] ''// eslint-disable-next-line''
                      @ '' to the line before.\<newline>''))]"
  using assms
  by (simp add: done_handler_def Let_def effects_def logWarning_def log_def)

lemma formatted_sample:
  "formatted sample_externals (sample_stats es ws) = \<lparr>errors = es, warnings = ws\<rparr>"
  by (simp add: formatted_def sample_externals_def sample_stats_def sample_toJson_def
        sample_format_def strings_of_def comp_def)

lemma chalk_of_sample: "chalk_of sample_externals styles s = s"
  by (simp add: sample_externals_def plain_chalk_def)

lemmas sample_simps =
  formatted_sample sample_options_def chalk_of_sample
  effects_def log_def logWarning_def logError_def printInstructions_def printPreviewNotice_def
  CONSOLE_TAG_def done_handler_def invalid_handler_def Let_def

subsection \<open>Failure of the bundler constructor\<close>

text \<open>
  C1. If \<open>webpack(config)\<close> throws a value (other than \<open>undefined\<close> or
  \<open>null\<close>, which have no properties to read), \<open>createWebpackCompiler\<close> prints
  through \<open>ProjectUtils.logError\<close>, under the tag \<open>webpack\<close>, the lines of its
  failure banner with \<open>err.message\<close> between them, or \<open>err\<close> itself when the
  message is absent (falsy), and then ends the process with exit code 1. The catch
  surrounds that call only: when the constructor returns, nothing is printed and the
  compiler is returned; an exit of \<open>createWebpackCompiler\<close> always has code 1 and
  comes from a throwing constructor; and no event handler ever calls
  \<open>process.exit\<close>.
\<close>

theorem C1_catch_at_startup:
  "(\<forall>err. webpack p (config p) = Inl err \<and> err \<noteq> Undefined \<and> err \<noteq> Null \<longrightarrow>
      (\<exists>message. get err ''message'' = Some message
         \<and> effects x p (fst (createWebpackCompiler p)) =
             [ProjectUtils_logError (projectRoot p) ''webpack'' (Str '' ''),
              ProjectUtils_logError (projectRoot p) ''webpack'' (Str ''Failed to compile''),
              ProjectUtils_logError (projectRoot p) ''webpack'' (Str '' ''),
              ProjectUtils_logError (projectRoot p) ''webpack''
                (if truthy message then message else err),
              ProjectUtils_logError (projectRoot p) ''webpack'' (Str '' ''),
              Process_exit 1]
         \<and> createWebpackCompiler p =
             ([LogError (projectRoot p) (Str '' ''),
               LogError (projectRoot p) (Str ''Failed to compile''),
               LogError (projectRoot p) (Str '' ''),
               LogError (projectRoot p) (if truthy message then message else err),
               LogError (projectRoot p) (Str '' ''),
               ProcessExit 1],
              Exited 1)))
   \<and> (\<forall>compiler. webpack p (config p) = Inr compiler \<longrightarrow>
          createWebpackCompiler p = ([], Returned compiler \<lparr>isFirstCompile = True\<rparr>)
          \<and> effects x p (fst (createWebpackCompiler p)) = [])
   \<and> (\<forall>n. snd (createWebpackCompiler p) = Exited n \<longrightarrow>
          n = 1 \<and> (\<exists>err. webpack p (config p) = Inl err))
   \<and> (\<forall>e s. \<not> list_ex is_ProcessExit (fst (fire x p e s))
            \<and> \<not> list_ex is_exit (effects x p (fst (fire x p e s))))"
proof (intro conjI allI impI)
  fix err
  assume a: "webpack p (config p) = Inl err \<and> err \<noteq> Undefined \<and> err \<noteq> Null"
  then obtain message where m: "get err ''message'' = Some message"
    using get_Some_iff by blast
  with a have c: "createWebpackCompiler p =
             ([LogError (projectRoot p) (Str '' ''),
               LogError (projectRoot p) (Str ''Failed to compile''),
               LogError (projectRoot p) (Str '' ''),
               LogError (projectRoot p) (if truthy message then message else err),
               LogError (projectRoot p) (Str '' ''),
               ProcessExit 1],
              Exited 1)"
    by (simp add: createWebpackCompiler_def js_or_def)
  have "effects x p (fst (createWebpackCompiler p)) =
             [ProjectUtils_logError (projectRoot p) ''webpack'' (Str '' ''),
              ProjectUtils_logError (projectRoot p) ''webpack'' (Str ''Failed to compile''),
              ProjectUtils_logError (projectRoot p) ''webpack'' (Str '' ''),
              ProjectUtils_logError (projectRoot p) ''webpack''
                (if truthy message then message else err),
              ProjectUtils_logError (projectRoot p) ''webpack'' (Str '' ''),
              Process_exit 1]"
    by (simp add: c effects_def logError_def CONSOLE_TAG_def)
  with m c show "\<exists>message. get err ''message'' = Some message
         \<and> effects x p (fst (createWebpackCompiler p)) =
             [ProjectUtils_logError (projectRoot p) ''webpack'' (Str '' ''),
              ProjectUtils_logError (projectRoot p) ''webpack'' (Str ''Failed to compile''),
              ProjectUtils_logError (projectRoot p) ''webpack'' (Str '' ''),
              ProjectUtils_logError (projectRoot p) ''webpack''
                (if truthy message then message else err),
              ProjectUtils_logError (projectRoot p) ''webpack'' (Str '' ''),
              Process_exit 1]
         \<and> createWebpackCompiler p =
             ([LogError (projectRoot p) (Str '' ''),
               LogError (projectRoot p) (Str ''Failed to compile''),
               LogError (projectRoot p) (Str '' ''),
               LogError (projectRoot p) (if truthy message then message else err),
               LogError (projectRoot p) (Str '' ''),
               ProcessExit 1],
              Exited 1)"
    by blast
next
  fix compiler
  assume "webpack p (config p) = Inr compiler"
  then show "createWebpackCompiler p = ([], Returned compiler \<lparr>isFirstCompile = True\<rparr>)"
    and "effects x p (fst (createWebpackCompiler p)) = []"
    by (simp_all add: createWebpackCompiler_def effects_def)
next
  fix n
  assume "snd (createWebpackCompiler p) = Exited n"
  then show "n = 1" "\<exists>err. webpack p (config p) = Inl err"
    by (auto simp: createWebpackCompiler_def split: sum.splits option.splits)
next
  fix e s
  show ne: "\<not> list_ex is_ProcessExit (fst (fire x p e s))"
    by (rule no_exit_fire)
  then show "\<not> list_ex is_exit (effects x p (fst (fire x p e s)))"
    by (rule effects_no_exit)
qed

theorem C1_catch_at_startup_witness:
  "effects sample_externals (sample_options Undefined (Bool False))
     (fst (createWebpackCompiler (sample_options Undefined (Bool False)))) =
     [ProjectUtils_logError (Str ''/app'') ''webpack'' (Str '' ''),
      ProjectUtils_logError (Str ''/app'') ''webpack'' (Str ''Failed to compile''),
      ProjectUtils_logError (Str ''/app'') ''webpack'' (Str '' ''),
      ProjectUtils_logError (Str ''/app'') ''webpack'' (Str ''Invalid configuration object.''),
      ProjectUtils_logError (Str ''/app'') ''webpack'' (Str '' ''),
      Process_exit 1]
   \<and> snd (createWebpackCompiler (sample_options Undefined (Bool False))) = Exited 1
   \<and> createWebpackCompiler (sample_options (Obj []) (Bool False)) =
       ([], Returned 0 \<lparr>isFirstCompile = True\<rparr>)
   \<and> effects sample_externals (sample_options (Obj []) (Bool False))
       (fst (createWebpackCompiler (sample_options (Obj []) (Bool False)))) = []"
  using C1_catch_at_startup [of "sample_options Undefined (Bool False)" sample_externals]
    C1_catch_at_startup [of "sample_options (Obj []) (Bool False)" sample_externals]
  by (auto simp: sample_options_def sample_webpack_def)

subsection \<open>What a \<open>done\<close> event prints\<close>

text \<open>
  C5, amended. For every \<open>done\<close> event the stats are formatted by
  \<open>formatWebpackMessages\<close>. When there are formatted errors, the handler prints
  \<open>Failed to compile.\<close> and the first of them, and prints no warning. When there are
  none but there are formatted warnings, it prints \<open>Compiled with warnings.\<close> and all
  of them. The handler never calls \<open>process.exit\<close>, and it returns, leaving
  \<open>isFirstCompile\<close> false: there is no retry and no recovery.
\<close>

theorem C5_done_prints_and_returns:
  "(errors (formatted x st) \<noteq> [] \<longrightarrow>
      ProjectUtils_logError (projectRoot p) CONSOLE_TAG
        (Str (chalk_of x [''red''] ''Failed to compile.\<newline>''))
        \<in> set (effects x p (fst (done_handler x p st s)))
    \<and> ProjectUtils_logError (projectRoot p) CONSOLE_TAG (Str (hd (errors (formatted x st))))
        \<in> set (effects x p (fst (done_handler x p st s)))
    \<and> \<not> list_ex is_logWarning (effects x p (fst (done_handler x p st s))))
   \<and> (errors (formatted x st) = [] \<and> warnings (formatted x st) \<noteq> [] \<longrightarrow>
        ProjectUtils_logWarning (projectRoot p) CONSOLE_TAG
          (Str (chalk_of x [''yellow''] ''Compiled with warnings.\<newline>''))
          \<in> set (effects x p (fst (done_handler x p st s)))
      \<and> ProjectUtils_logWarning (projectRoot p) CONSOLE_TAG
          (Str (join ''\<newline>\<newline>'' (warnings (formatted x st))))
          \<in> set (effects x p (fst (done_handler x p st s))))
   \<and> \<not> list_ex is_ProcessExit (fst (done_handler x p st s))
   \<and> \<not> list_ex is_exit (effects x p (fst (done_handler x p st s)))
   \<and> snd (done_handler x p st s) = s\<lparr>isFirstCompile := False\<rparr>"
proof (intro conjI impI)
  assume e: "errors (formatted x st) \<noteq> []"
  show "ProjectUtils_logError (projectRoot p) CONSOLE_TAG
          (Str (chalk_of x [''red''] ''Failed to compile.\<newline>''))
        \<in> set (effects x p (fst (done_handler x p st s)))"
    and "ProjectUtils_logError (projectRoot p) CONSOLE_TAG (Str (hd (errors (formatted x st))))
        \<in> set (effects x p (fst (done_handler x p st s)))"
    and "\<not> list_ex is_logWarning (effects x p (fst (done_handler x p st s)))"
    by (simp_all add: done_effects_errors [OF e])
next
  assume "errors (formatted x st) = [] \<and> warnings (formatted x st) \<noteq> []"
  then have e: "errors (formatted x st) = []" and w: "warnings (formatted x st) \<noteq> []"
    by simp_all
  show "ProjectUtils_logWarning (projectRoot p) CONSOLE_TAG
          (Str (chalk_of x [''yellow''] ''Compiled with warnings.\<newline>''))
        \<in> set (effects x p (fst (done_handler x p st s)))"
    and "ProjectUtils_logWarning (projectRoot p) CONSOLE_TAG
          (Str (join ''\<newline>\<newline>'' (warnings (formatted x st))))
        \<in> set (effects x p (fst (done_handler x p st s)))"
    by (simp_all add: done_effects_warnings [OF e w])
next
  show ne: "\<not> list_ex is_ProcessExit (fst (done_handler x p st s))"
    by (rule no_exit_done)
  then show "\<not> list_ex is_exit (effects x p (fst (done_handler x p st s)))"
    by (rule effects_no_exit)
  show "snd (done_handler x p st s) = s\<lparr>isFirstCompile := False\<rparr>"
    by (rule done_handler_state)
qed

theorem C5_done_prints_and_returns_witness:
  "ProjectUtils_logError (Str ''/app'') ''webpack'' (Str ''e'')
     \<in> set (effects sample_externals (sample_options (Obj []) (Bool True))
          (fst (done_handler sample_externals (sample_options (Obj []) (Bool True))
             (sample_stats [''e''] []) \<lparr>isFirstCompile = True\<rparr>)))
   \<and> ProjectUtils_logWarning (Str ''/app'') ''webpack'' (Str ''w'')
     \<in> set (effects sample_externals (sample_options (Obj []) (Bool True))
          (fst (done_handler sample_externals (sample_options (Obj []) (Bool True))
             (sample_stats [] [''w'']) \<lparr>isFirstCompile = True\<rparr>)))
   \<and> snd (done_handler sample_externals (sample_options (Obj []) (Bool True))
             (sample_stats [] [''w'']) \<lparr>isFirstCompile = True\<rparr>) = \<lparr>isFirstCompile = False\<rparr>"
  using
    C5_done_prints_and_returns [of sample_externals "sample_stats [''e''] []"
      "sample_options (Obj []) (Bool True)" "\<lparr>isFirstCompile = True\<rparr>"]
    C5_done_prints_and_returns [of sample_externals "sample_stats [] [''w'']"
      "sample_options (Obj []) (Bool True)" "\<lparr>isFirstCompile = True\<rparr>"]
  by (simp add: formatted_sample sample_options_def CONSOLE_TAG_def)

text \<open>
  C5 as stated fails where the stats hold both an error and a warning: the warning is
  among the formatted messages, and nothing the handler prints contains it.
\<close>

theorem C5_warnings_dropped_counterexample:
  "warnings (formatted sample_externals (sample_stats [''e''] [''w''])) = [''w'']
   \<and> effects sample_externals (sample_options (Obj []) (Bool True))
        (fst (done_handler sample_externals (sample_options (Obj []) (Bool True))
           (sample_stats [''e''] [''w'']) \<lparr>isFirstCompile = True\<rparr>))
      = [ProjectUtils_logError (Str ''/app'') ''webpack'' (Arr [Str ''e'']),
         ProjectUtils_logInfo (Str ''/app'') ''webpack'' (Str '' ''),
         Callback_onFinished,
         ProjectUtils_logError (Str ''/app'') ''webpack'' (Str ''Failed to compile.\<newline>''),
         ProjectUtils_logError (Str ''/app'') ''webpack'' (Str ''e'')]"
  by (simp add: sample_simps)

text \<open>
  C8, at the inputs where it fails. Whenever there is a formatted error, this is all the
  handler prints: \<open>Failed to compile.\<close> and the first error, and no warning, as
  claimed; but before them \<open>devSocket.errors\<close> has passed the whole, untruncated list
  of errors to \<open>logError\<close>, so with two errors or more the second one is printed too.
\<close>

theorem C8_all_errors_logged:
  "errors (formatted x st) \<noteq> [] \<longrightarrow>
     effects x p (fst (done_handler x p st s)) =
       (if \<not> truthy (nonInteractive p) then [Console_clear] else [])
       @ [ProjectUtils_logError (projectRoot p) CONSOLE_TAG
            (Arr (map Str (errors (formatted x st)))),
          ProjectUtils_logInfo (projectRoot p) CONSOLE_TAG (Str '' ''),
          Callback_onFinished,
          ProjectUtils_logError (projectRoot p) CONSOLE_TAG
            (Str (chalk_of x [''red''] ''Failed to compile.\<newline>'')),
          ProjectUtils_logError (projectRoot p) CONSOLE_TAG
            (Str (hd (errors (formatted x st))))]"
  using done_effects_errors by blast

theorem C8_all_errors_logged_witness:
  "effects sample_externals (sample_options (Obj []) (Bool True))
     (fst (done_handler sample_externals (sample_options (Obj []) (Bool True))
        (sample_stats [''e1'', ''e2''] [''w'']) \<lparr>isFirstCompile = False\<rparr>))
   = [ProjectUtils_logError (Str ''/app'') ''webpack'' (Arr [Str ''e1'', Str ''e2'']),
      ProjectUtils_logInfo (Str ''/app'') ''webpack'' (Str '' ''),
      Callback_onFinished,
      ProjectUtils_logError (Str ''/app'') ''webpack'' (Str ''Failed to compile.\<newline>''),
      ProjectUtils_logError (Str ''/app'') ''webpack'' (Str ''e1'')]"
  using C8_all_errors_logged [of sample_externals "sample_stats [''e1'', ''e2''] [''w'']"
      "sample_options (Obj []) (Bool True)" "\<lparr>isFirstCompile = False\<rparr>"]
  by (simp add: formatted_sample sample_options_def chalk_of_sample CONSOLE_TAG_def)

subsection \<open>The \<open>onFinished\<close> callback\<close>

lemma count_onFinished_printInstructions:
  "count_list (printInstructions ch r a us y) Callback_onFinished = 0"
  by (simp add: printInstructions_def log_def)

lemma count_onFinished_printPreviewNotice:
  "count_list (printPreviewNotice ch r) Callback_onFinished = 0"
  by (simp add: printPreviewNotice_def log_def)

lemma count_onFinished_perform:
  "count_list (perform x p c) Callback_onFinished = (if c = OnFinished then 1 else 0)"
  by (cases c)
     (simp_all add: log_def logWarning_def logError_def count_onFinished_printInstructions
        count_onFinished_printPreviewNotice)

lemma count_onFinished_effects:
  "count_list (effects x p cs) Callback_onFinished = count_list cs OnFinished"
  by (induction cs) (simp_all add: effects_Nil effects_Cons count_onFinished_perform)

text \<open>
  C9, amended. \<open>onFinished\<close> is invoked exactly once per \<open>done\<close> event, whether
  the compile produced errors, warnings or neither, and it is invoked before the
  handler's report (its own \<open>logError\<close> and \<open>logWarning\<close> statements:
  \<open>Failed to compile.\<close> or \<open>Compiled with warnings.\<close> and the messages after
  it), which is not empty when there are errors or warnings. The ordering does not
  extend to the \<open>devSocket\<close> call at the top of the handler.
\<close>

theorem C9_onFinished_once_before_report:
  "\<exists>pre post.
      fst (done_handler x p st s) = pre @ [OnFinished] @ post
    \<and> OnFinished \<notin> set pre \<and> OnFinished \<notin> set post
    \<and> \<not> list_ex is_report pre \<and> list_all is_report post
    \<and> (errors (formatted x st) \<noteq> [] \<or> warnings (formatted x st) \<noteq> [] \<longrightarrow> post \<noteq> [])
    \<and> count_list (effects x p (fst (done_handler x p st s))) Callback_onFinished = 1"
proof -
  define ms where "ms = formatted x st"
  define pre where "pre =
     (if \<not> truthy (nonInteractive p) then [ClearConsole] else [])
     @ (if length (errors ms) > 0 then [DevSocket_errors (errors ms)]
        else if length (warnings ms) > 0 then [DevSocket_warnings (warnings ms)]
        else [])
     @ [Log (projectRoot p) (Str '' '')]
     @ (if length (errors ms) = 0 \<and> length (warnings ms) = 0 then
          [Log (projectRoot p) (Str (chalk_of x [''bold'', ''cyan''] ''Compiled successfully!'')),
           PrintPreviewNotice (projectRoot p)]
        else [])
     @ (if (length (errors ms) = 0 \<and> length (warnings ms) = 0)
           \<and> (\<not> truthy (nonInteractive p) \<or> isFirstCompile s) then
          [PrintInstructions (projectRoot p) (appName p) (urls p) (useYarn p)]
        else [])"
  define post where "post =
     (if length (errors ms) \<noteq> 0 then
        [LogError (projectRoot p) (Str (chalk_of x [''red''] ''Failed to compile.\<newline>'')),
         LogError (projectRoot p)
           (Str (join ''\<newline>\<newline>''
              (if length (errors ms) > 1 then take 1 (errors ms) else errors ms)))]
      else if length (warnings ms) \<noteq> 0 then
        [LogWarning (projectRoot p)
           (Str (chalk_of x [''yellow''] ''Compiled with warnings.\<newline>'')),
         LogWarning (projectRoot p) (Str (join ''\<newline>\<newline>'' (warnings ms))),
         LogWarning (projectRoot p)
           (Str (''\<newline>Search for the ''
                 @ chalk_of x [''underline''] (chalk_of x [''yellow''] ''keywords'')
                 @ '' to learn more about each warning.'')),
         LogWarning (projectRoot p)
           (Str (''To ignore, add '' @ chalk_of x [''cyan''] ''// eslint-disable-next-line''
                 @ '' to the line before.\<newline>''))]
      else [])"
  have shape: "fst (done_handler x p st s) = pre @ [OnFinished] @ post"
    by (simp add: done_handler_def Let_def pre_def post_def ms_def)
  have pre: "OnFinished \<notin> set pre" "\<not> list_ex is_report pre"
    by (simp_all add: pre_def)
  have post: "OnFinished \<notin> set post" "list_all is_report post"
    by (simp_all add: post_def)
  have nonempty: "errors (formatted x st) \<noteq> [] \<or> warnings (formatted x st) \<noteq> [] \<longrightarrow> post \<noteq> []"
    by (simp add: post_def ms_def)
  have "count_list (effects x p (fst (done_handler x p st s))) Callback_onFinished = 1"
    using pre(1) post(1) by (simp add: count_onFinished_effects shape)
  with shape pre post nonempty show ?thesis by blast
qed

theorem C9_onFinished_once_before_report_witness:
  "fst (done_handler sample_externals (sample_options (Obj []) (Bool True))
          (sample_stats [''e1'', ''e2''] []) \<lparr>isFirstCompile = True\<rparr>)
   = [DevSocket_errors [''e1'', ''e2''], Log (Str ''/app'') (Str '' '')]
     @ [OnFinished]
     @ [LogError (Str ''/app'') (Str ''Failed to compile.\<newline>''),
        LogError (Str ''/app'') (Str ''e1'')]
   \<and> count_list
        (effects sample_externals (sample_options (Obj []) (Bool True))
           (fst (done_handler sample_externals (sample_options (Obj []) (Bool True))
              (sample_stats [''e1'', ''e2''] []) \<lparr>isFirstCompile = True\<rparr>)))
        Callback_onFinished = 1"
  using C9_onFinished_once_before_report [of sample_externals
      "sample_options (Obj []) (Bool True)" "sample_stats [''e1'', ''e2''] []"
      "\<lparr>isFirstCompile = True\<rparr>"]
  by (auto simp: formatted_sample sample_options_def chalk_of_sample done_handler_def Let_def)

text \<open>
  C9 as stated fails for a compile with a warning: the list of warnings is printed
  through \<open>devSocket.warnings\<close> before \<open>onFinished\<close> is called.
\<close>

theorem C9_warning_before_onFinished_counterexample:
  "effects sample_externals (sample_options (Obj []) (Bool True))
     (fst (done_handler sample_externals (sample_options (Obj []) (Bool True))
        (sample_stats [] [''w'']) \<lparr>isFirstCompile = False\<rparr>))
   = [ProjectUtils_logWarning (Str ''/app'') ''webpack'' (Arr [Str ''w'']),
      ProjectUtils_logInfo (Str ''/app'') ''webpack'' (Str '' ''),
      Callback_onFinished,
      ProjectUtils_logWarning (Str ''/app'') ''webpack'' (Str ''Compiled with warnings.\<newline>''),
      ProjectUtils_logWarning (Str ''/app'') ''webpack'' (Str ''w''),
      ProjectUtils_logWarning (Str ''/app'') ''webpack''
        (Str ''\<newline>Search for the keywords to learn more about each warning.''),
      ProjectUtils_logWarning (Str ''/app'') ''webpack''
        (Str ''To ignore, add // eslint-disable-next-line to the line before.\<newline>'')]"
  by (simp add: sample_simps)

subsection \<open>State shared between firings\<close>

text \<open>
  C7, amended. The only state shared between firings of the handlers is
  \<open>isFirstCompile\<close>. The \<open>invalid\<close> handler neither reads nor writes it. The
  \<open>done\<close> handler sets it to false on every run, and what it executes depends on the
  state through this flag alone, and not at all when \<open>nonInteractive\<close> is falsy or the
  compile has errors or warnings.
\<close>

theorem C7_only_isFirstCompile_is_shared:
  "fst (invalid_handler x p s) = fst (invalid_handler x p s')
   \<and> snd (invalid_handler x p s) = s
   \<and> snd (done_handler x p st s) = s\<lparr>isFirstCompile := False\<rparr>
   \<and> (isFirstCompile s = isFirstCompile s' \<longrightarrow>
        fst (done_handler x p st s) = fst (done_handler x p st s'))
   \<and> (\<not> truthy (nonInteractive p) \<or> errors (formatted x st) \<noteq> []
        \<or> warnings (formatted x st) \<noteq> [] \<longrightarrow>
        fst (done_handler x p st s) = fst (done_handler x p st s'))"
  by (auto simp: invalid_handler_def done_handler_def Let_def)

theorem C7_only_isFirstCompile_is_shared_witness:
  "fst (done_handler sample_externals (sample_options (Obj []) (Bool False)) (sample_stats [] [])
          \<lparr>isFirstCompile = True\<rparr>)
   = fst (done_handler sample_externals (sample_options (Obj []) (Bool False)) (sample_stats [] [])
          \<lparr>isFirstCompile = False\<rparr>)
   \<and> fst (done_handler sample_externals (sample_options (Obj []) (Bool True))
          (sample_stats [''e''] []) \<lparr>isFirstCompile = True\<rparr>)
   = fst (done_handler sample_externals (sample_options (Obj []) (Bool True))
          (sample_stats [''e''] []) \<lparr>isFirstCompile = False\<rparr>)"
  using
    C7_only_isFirstCompile_is_shared [of sample_externals "sample_options (Obj []) (Bool False)"
      "\<lparr>isFirstCompile = True\<rparr>" "\<lparr>isFirstCompile = False\<rparr>" "sample_stats [] []"]
    C7_only_isFirstCompile_is_shared [of sample_externals "sample_options (Obj []) (Bool True)"
      "\<lparr>isFirstCompile = True\<rparr>" "\<lparr>isFirstCompile = False\<rparr>" "sample_stats [''e''] []"]
  by (simp add: formatted_sample sample_options_def)

text \<open>
  C7 as stated fails: in non-interactive mode two \<open>done\<close> events with the same
  stats execute different statements, the first with the instructions, the second
  without, because the first firing wrote \<open>isFirstCompile\<close> and the second read it.
\<close>

theorem C7_same_arguments_counterexample:
  "run sample_externals (sample_options (Obj []) (Bool True)) \<lparr>isFirstCompile = True\<rparr>
     [Done (sample_stats [] []), Done (sample_stats [] [])]
   = [[Log (Str ''/app'') (Str '' ''),
       Log (Str ''/app'') (Str ''Compiled successfully!''),
       PrintPreviewNotice (Str ''/app''),
       PrintInstructions (Str ''/app'') (Str ''app'')
         \<lparr>lanUrlForTerminal = Undefined, localUrlForTerminal = Str ''http://localhost:19006''\<rparr>
         (Bool False),
       OnFinished],
      [Log (Str ''/app'') (Str '' ''),
       Log (Str ''/app'') (Str ''Compiled successfully!''),
       PrintPreviewNotice (Str ''/app''),
       OnFinished]]"
  by (simp add: sample_simps)

subsection \<open>The instructions in non-interactive mode\<close>

lemma after_append: "after x p s (es @ es') = after x p (after x p s es) es'"
  by (induction es arbitrary: s) simp_all

lemma fire_keeps_false: "\<not> isFirstCompile s \<Longrightarrow> \<not> isFirstCompile (snd (fire x p e s))"
  by (cases e) (simp_all add: invalid_handler_state done_handler_state)

lemma after_keeps_false: "\<not> isFirstCompile s \<Longrightarrow> \<not> isFirstCompile (after x p s es)"
  by (induction es arbitrary: s) (simp_all add: fire_keeps_false)

lemma run_eq_Nil: "run x p s es = [] \<longleftrightarrow> es = []"
  by (cases es) simp_all

lemma last_run: "last (run x p s (es @ [e])) = fst (fire x p e (after x p s es))"
  by (induction es arbitrary: s) (simp_all add: run_eq_Nil)

lemma done_no_instructions:
  "truthy (nonInteractive p) \<Longrightarrow> \<not> isFirstCompile s \<Longrightarrow>
   \<not> list_ex is_PrintInstructions (fst (done_handler x p st s))"
  by (simp add: done_handler_def Let_def)

text \<open>
  C10. \<open>isFirstCompile\<close> is true when \<open>createWebpackCompiler\<close> returns, false
  after every run of the \<open>done\<close> handler, and once false it stays false whatever
  events follow. So when \<open>nonInteractive\<close> is truthy, in any sequence of events a
  \<open>done\<close> event that comes after another \<open>done\<close> event does not print the
  instructions: they are printed during the first \<open>done\<close> event at most.
\<close>

theorem C10_instructions_at_most_once:
  assumes "truthy (nonInteractive p)"
  shows "(\<forall>compiler. webpack p (config p) = Inr compiler \<longrightarrow>
            snd (createWebpackCompiler p) = Returned compiler \<lparr>isFirstCompile = True\<rparr>)
       \<and> \<not> isFirstCompile (snd (done_handler x p st s))
       \<and> (\<not> isFirstCompile s \<longrightarrow> \<not> isFirstCompile (after x p s es))
       \<and> \<not> list_ex is_PrintInstructions
            (last (run x p s (es1 @ Done st1 # es2 @ [Done st2])))"
proof (intro conjI allI impI)
  fix compiler
  assume "webpack p (config p) = Inr compiler"
  then show "snd (createWebpackCompiler p) = Returned compiler \<lparr>isFirstCompile = True\<rparr>"
    by (simp add: createWebpackCompiler_def)
next
  show "\<not> isFirstCompile (snd (done_handler x p st s))"
    by (simp add: done_handler_state)
next
  assume "\<not> isFirstCompile s"
  then show "\<not> isFirstCompile (after x p s es)"
    by (rule after_keeps_false)
next
  have "\<not> isFirstCompile (after x p s (es1 @ [Done st1]))"
    by (simp add: after_append done_handler_state)
  then have "\<not> isFirstCompile (after x p (after x p s (es1 @ [Done st1])) es2)"
    by (rule after_keeps_false)
  then have f: "\<not> isFirstCompile (after x p s (es1 @ Done st1 # es2))"
    by (simp add: after_append)
  have "last (run x p s (es1 @ Done st1 # es2 @ [Done st2]))
        = fst (done_handler x p st2 (after x p s (es1 @ Done st1 # es2)))"
    using last_run [of x p s "es1 @ Done st1 # es2" "Done st2"] by simp
  then show "\<not> list_ex is_PrintInstructions
            (last (run x p s (es1 @ Done st1 # es2 @ [Done st2])))"
    using done_no_instructions [OF assms f] by simp
qed

theorem C10_instructions_at_most_once_witness:
  "truthy (nonInteractive (sample_options (Obj []) (Bool True)))
   \<and> list_ex is_PrintInstructions
       (hd (run sample_externals (sample_options (Obj []) (Bool True)) \<lparr>isFirstCompile = True\<rparr>
              [Done (sample_stats [] []), Invalid, Done (sample_stats [] [])]))
   \<and> \<not> list_ex is_PrintInstructions
       (last (run sample_externals (sample_options (Obj []) (Bool True)) \<lparr>isFirstCompile = True\<rparr>
              [Done (sample_stats [] []), Invalid, Done (sample_stats [] [])]))"
proof -
  have t: "truthy (nonInteractive (sample_options (Obj []) (Bool True)))"
    by (simp add: sample_options_def)
  have first: "list_ex is_PrintInstructions
       (hd (run sample_externals (sample_options (Obj []) (Bool True)) \<lparr>isFirstCompile = True\<rparr>
              [Done (sample_stats [] []), Invalid, Done (sample_stats [] [])]))"
    by (simp add: done_handler_def Let_def formatted_sample sample_options_def)
  from C10_instructions_at_most_once [OF t, of sample_externals "sample_stats [] []"
      "\<lparr>isFirstCompile = True\<rparr>" "[]" "[]" "sample_stats [] []" "[Invalid]" "sample_stats [] []"]
  have "\<not> list_ex is_PrintInstructions
       (last (run sample_externals (sample_options (Obj []) (Bool True)) \<lparr>isFirstCompile = True\<rparr>
              [Done (sample_stats [] []), Invalid, Done (sample_stats [] [])]))"
    by simp
  with t first show ?thesis by simp
qed

subsection \<open>The changelog script\<close>

lemma map_of_Object_assign_empty:
  "Object_assign (Obj []) (Obj ps) = Obj e \<Longrightarrow> map_of e = map_of ps"
  by (auto simp: Object_assign_def map_of_fold_update map_of_clearjunk)

text \<open>
  C6, amended. The script logs its line, spawns \<open>lerna\<close>, resolved from the
  script's directory and \<open>../node_modules/.bin/lerna\<close>, with exactly the arguments
  \<open>version\<close> and \<open>--conventional-commits\<close>, with \<open>stdio: 'inherit'\<close> and an
  environment that is a copy of \<open>process.env\<close> (the same properties in a new
  object), and registers \<open>process.exit\<close> for the child's \<open>exit\<close> event. When the
  child exits with a code, the process ends with that code (an exit code is a number
  from 0 to 255; \<open>process.exit\<close> reduces any number modulo 256). When a signal ended
  the child, the event's code is \<open>null\<close> and the process ends with status 0.
\<close>

theorem C6_generateChangelog:
  "\<exists>opts e.
      generateChangelog path_join dir (Obj ps) =
        [Console_log ''generating changelog...'',
         Spawn (path_join [dir, Str ''../node_modules/.bin/lerna''])
           [Str ''version'', Str ''--conventional-commits''] opts,
         On ''exit'' process_exit]
    \<and> get opts ''stdio'' = Some (Str ''inherit'')
    \<and> get opts ''env'' = Some (Obj e)
    \<and> map_of e = map_of ps
    \<and> exit_event (generateChangelog path_join dir (Obj ps)) (Exit_code n) = Some (n mod 256)
    \<and> (0 \<le> n \<and> n < 256 \<longrightarrow>
         exit_event (generateChangelog path_join dir (Obj ps)) (Exit_code n) = Some n)
    \<and> exit_event (generateChangelog path_join dir (Obj ps)) (Killed_by sig) = Some 0"
proof -
  obtain e where e: "Object_assign (Obj []) (Obj ps) = Obj e"
    by (simp add: Object_assign_def)
  then have "map_of e = map_of ps"
    by (rule map_of_Object_assign_empty)
  with e show ?thesis
    by (simp add: generateChangelog_def object_literal_def exit_event_def)
qed

theorem C6_generateChangelog_witness:
  "\<exists>opts.
      generateChangelog sample_path_join (Str ''/repo/scripts'') (Obj [(''PATH'', Str ''/usr/bin'')]) =
        [Console_log ''generating changelog...'',
         Spawn (Str ''/repo/scripts/../node_modules/.bin/lerna'')
           [Str ''version'', Str ''--conventional-commits''] opts,
         On ''exit'' process_exit]
    \<and> get opts ''stdio'' = Some (Str ''inherit'')
    \<and> get opts ''env'' = Some (Obj [(''PATH'', Str ''/usr/bin'')])
    \<and> exit_event
         (generateChangelog sample_path_join (Str ''/repo/scripts'')
            (Obj [(''PATH'', Str ''/usr/bin'')]))
         (Exit_code 3) = Some 3"
  using C6_generateChangelog [of sample_path_join "Str ''/repo/scripts''"
      "[(''PATH'', Str ''/usr/bin'')]" 3]
  by (simp add: sample_path_join_def generateChangelog_def object_literal_def Object_assign_def
        exit_event_def)

text \<open>
  C6 as stated fails on the \<open>exit\<close> event of a child that a signal ended: the child
  has no exit code (the event carries \<open>null\<close>), and the process ends with status 0,
  as after a child that succeeded.
\<close>

theorem C6_killed_child_counterexample:
  "exit_event_args (Killed_by ''SIGKILL'') = [Null, Str ''SIGKILL'']
   \<and> exit_event
        (generateChangelog sample_path_join (Str ''/repo/scripts'')
           (Obj [(''PATH'', Str ''/usr/bin'')]))
        (Killed_by ''SIGKILL'') = Some 0
   \<and> exit_event
        (generateChangelog sample_path_join (Str ''/repo/scripts'')
           (Obj [(''PATH'', Str ''/usr/bin'')]))
        (Exit_code 0) = Some 0"
  by (simp add: generateChangelog_def exit_event_def)

end
